theory Spec2Isabelle
  imports Complex_Main "HOL-Library.Sublist"
begin

section \<open>Strings and paths\<close>

text \<open>
  The server is a single module (\<^verbatim>\<open>dist/index.js\<close>). Its strings are modelled as
  \<^typ>\<open>string\<close>; the two emoji of the install report are kept as their UTF-8 bytes.
\<close>

definition CHECK_MARK :: string where
  "CHECK_MARK = [CHR 0xE2, CHR 0x9C, CHR 0x85]"

definition CROSS_MARK :: string where
  "CROSS_MARK = [CHR 0xE2, CHR 0x9D, CHR 0x8C]"

text \<open>\<^verbatim>\<open>Array.prototype.join\<close> and \<^verbatim>\<open>String.prototype.startsWith\<close>.\<close>

fun joinWith :: "string \<Rightarrow> string list \<Rightarrow> string" where
  "joinWith sep [] = []"
| "joinWith sep [x] = x"
| "joinWith sep (x # y # ys) = x @ sep @ joinWith sep (y # ys)"

definition startsWith :: "string \<Rightarrow> string \<Rightarrow> bool" where
  "startsWith s p = (take (length p) s = p)"

text \<open>
  The module calls \<^verbatim>\<open>path.join\<close> and \<^verbatim>\<open>path.resolve\<close> of the Node.js runtime. They are
  modelled here in their POSIX variant, following the runtime's algorithm: the path is cut
  at every \<^verbatim>\<open>/\<close>, empty and \<^verbatim>\<open>.\<close> segments are dropped, a \<^verbatim>\<open>..\<close> segment removes the
  segment before it (or is kept, for a relative path that climbs above its start).
  Neither function looks at the file system: symbolic links are not followed.
\<close>

fun splitSlash :: "string \<Rightarrow> string list" where
  "splitSlash [] = [[]]"
| "splitSlash (c # cs) =
     (if c = CHR ''/'' then [] # splitSlash cs
      else (case splitSlash cs of [] \<Rightarrow> [[c]] | s # ss \<Rightarrow> (c # s) # ss))"

fun normalizeSegs :: "bool \<Rightarrow> string list \<Rightarrow> string list \<Rightarrow> string list" where
  "normalizeSegs allowAboveRoot res [] = res"
| "normalizeSegs allowAboveRoot res (seg # segs) =
     (if seg = [] \<or> seg = ''.'' then normalizeSegs allowAboveRoot res segs
      else if seg = ''..'' then
        (if res \<noteq> [] \<and> last res \<noteq> ''..'' then normalizeSegs allowAboveRoot (butlast res) segs
         else if allowAboveRoot then normalizeSegs allowAboveRoot (res @ [''..'']) segs
         else normalizeSegs allowAboveRoot res segs)
      else normalizeSegs allowAboveRoot (res @ [seg]) segs)"

definition normalizeString :: "string \<Rightarrow> bool \<Rightarrow> string" where
  "normalizeString p allowAboveRoot = joinWith ''/'' (normalizeSegs allowAboveRoot [] (splitSlash p))"

definition isAbsolute :: "string \<Rightarrow> bool" where
  "isAbsolute p = (case p of [] \<Rightarrow> False | c # _ \<Rightarrow> c = CHR ''/'')"

definition path_normalize :: "string \<Rightarrow> string" where
  "path_normalize p =
     (if p = [] then ''.''
      else let trailingSeparator = (last p = CHR ''/'');
               q = normalizeString p (\<not> isAbsolute p)
           in if q = [] then (if isAbsolute p then ''/'' else if trailingSeparator then ''./'' else ''.'')
              else let q' = (if trailingSeparator then q @ ''/'' else q)
                   in if isAbsolute p then ''/'' @ q' else q')"

definition path_join :: "string list \<Rightarrow> string" where
  "path_join args =
     (let joined = filter (\<lambda>arg. arg \<noteq> []) args
      in if joined = [] then ''.'' else path_normalize (joinWith ''/'' joined))"

text \<open>
  \<^verbatim>\<open>path.resolve\<close> walks its arguments from the right, then the working directory, until
  the path built so far is absolute.
\<close>

fun resolveLoop :: "string list \<Rightarrow> string \<Rightarrow> string \<times> bool" where
  "resolveLoop [] resolvedPath = (resolvedPath, False)"
| "resolveLoop (p # ps) resolvedPath =
     (if p = [] then resolveLoop ps resolvedPath
      else if isAbsolute p then (p @ ''/'' @ resolvedPath, True)
      else resolveLoop ps (p @ ''/'' @ resolvedPath))"

definition path_resolve :: "string \<Rightarrow> string list \<Rightarrow> string" where
  "path_resolve cwd args =
     (case resolveLoop (rev args @ [cwd]) [] of
        (resolvedPath, resolvedAbsolute) \<Rightarrow>
          (let n = normalizeString resolvedPath (\<not> resolvedAbsolute)
           in if resolvedAbsolute then ''/'' @ n
              else if n \<noteq> [] then n else ''.''))"

text \<open>
  Component-wise containment, as the specification words it: the components of a path are
  its non-empty segments, and a directory lies under a root when the root's components are
  a proper prefix of the directory's.
\<close>

definition pathComponents :: "string \<Rightarrow> string list" where
  "pathComponents p = filter (\<lambda>seg. seg \<noteq> []) (splitSlash p)"

definition properComponentPrefix :: "string \<Rightarrow> string \<Rightarrow> bool" where
  "properComponentPrefix base dir =
     (let rs = pathComponents base; ds = pathComponents dir
      in length rs < length ds \<and> take (length rs) ds = rs)"

section \<open>Agent detection\<close>

text \<open>
  \<^verbatim>\<open>detectCurrentAgent\<close> reads \<^verbatim>\<open>process.env\<close> (a map from names to values; an unset or
  empty variable is falsy) and the home directory, and checks the configuration
  directories with \<^verbatim>\<open>require("fs").statSync(dir)\<close>. The parameter \<open>statSync\<close> is the
  \<^verbatim>\<open>statSync\<close> of the platform's \<^verbatim>\<open>fs\<close> module: it either throws or returns the stats of
  the path, of which only \<^verbatim>\<open>isDirectory()\<close> is read.
\<close>

datatype thrown = JsError string | NonError string

fun errorMessage :: "thrown \<Rightarrow> string" where
  "errorMessage (JsError message) = message"
| "errorMessage (NonError shown) = shown"

definition truthy :: "string option \<Rightarrow> bool" where
  "truthy v = (case v of None \<Rightarrow> False | Some s \<Rightarrow> s \<noteq> [])"

definition AGENT_KINDS :: "string list" where
  "AGENT_KINDS = [''claude'', ''codex'', ''gemini'', ''opencode'']"

text \<open>
  The module is an ES module: it opens with static \<^verbatim>\<open>import\<close> declarations. The
  identifier \<^verbatim>\<open>require\<close> is not bound in an ES module, so evaluating \<^verbatim>\<open>require("fs")\<close>
  throws a \<^verbatim>\<open>ReferenceError\<close>, inside the \<^verbatim>\<open>try\<close> of the loop, before \<^verbatim>\<open>statSync\<close> is
  reached.
\<close>

definition require :: "string \<Rightarrow> thrown + unit" where
  "require moduleName = Inl (JsError ''require is not defined'')"

fun checkDirs :: "(string \<Rightarrow> thrown + bool) \<Rightarrow> (string \<times> string) list \<Rightarrow> string" where
  "checkDirs statSync [] = ''claude''"
| "checkDirs statSync ((agent, dir) # checks) =
     (case (case require ''fs'' of Inl e \<Rightarrow> Inl e | Inr fsModule \<Rightarrow> statSync dir) of
        Inr isDirectory \<Rightarrow> (if isDirectory then agent else checkDirs statSync checks)
      | Inl _ \<Rightarrow> checkDirs statSync checks)"

definition configDirs :: "string \<Rightarrow> (string \<times> string) list" where
  "configDirs homeDir =
     [(''claude'', path_join [homeDir, ''.claude'']),
      (''codex'', path_join [homeDir, ''.codex'']),
      (''gemini'', path_join [homeDir, ''.gemini'']),
      (''opencode'', path_join [homeDir, ''.opencode''])]"

definition detectFromSignals ::
  "(string \<rightharpoonup> string) \<Rightarrow> string \<Rightarrow> (string \<Rightarrow> thrown + bool) \<Rightarrow> string" where
  "detectFromSignals env homeDir statSync =
     (if truthy (env ''CLAUDE_CODE'') \<or> truthy (env ''ANTHROPIC_API_KEY'') then ''claude''
      else if truthy (env ''CODEX_HOME'') \<or> truthy (env ''OPENAI_API_KEY'') then ''codex''
      else if truthy (env ''GEMINI_API_KEY'') then ''gemini''
      else checkDirs statSync (configDirs homeDir))"

definition detectCurrentAgent ::
  "(string \<rightharpoonup> string) \<Rightarrow> string \<Rightarrow> (string \<Rightarrow> thrown + bool) \<Rightarrow> string" where
  "detectCurrentAgent env homeDir statSync =
     (case env ''SKILLHUB_DEFAULT_AGENT'' of
        Some envAgent \<Rightarrow>
          if envAgent \<noteq> [] \<and> envAgent \<in> set AGENT_KINDS then envAgent
          else detectFromSignals env homeDir statSync
      | None \<Rightarrow> detectFromSignals env homeDir statSync)"

section \<open>Tool arguments and their schemas\<close>

text \<open>
  Tool arguments arrive as JSON. An object is an association list read with
  \<^const>\<open>map_of\<close>; a missing key and an absent argument object are \<^verbatim>\<open>undefined\<close>,
  modelled as \<^const>\<open>None\<close>.
\<close>

datatype json = JNull | JBool bool | JNum rat | JStr string | JArr "json list"
  | JObj "(string \<times> json) list"

datatype path_elem = Key string | Index nat

datatype zod_code = invalid_type | too_small | too_big | invalid_enum_value

type_synonym zod_issue = "path_elem list \<times> zod_code"

type_synonym 'a parsed = "zod_issue list + 'a"

text \<open>
  The schemas are built with the zod library. The model keeps what decides acceptance: the
  type checks, the bounds, the enumerations, \<^verbatim>\<open>optional\<close> and \<^verbatim>\<open>default\<close>; a schema
  collects the issues of all its fields before it fails.
\<close>

definition zString :: "json option \<Rightarrow> string parsed" where
  "zString v = (case v of Some (JStr s) \<Rightarrow> Inr s | _ \<Rightarrow> Inl [([], invalid_type)])"

definition zBoolean :: "json option \<Rightarrow> bool parsed" where
  "zBoolean v = (case v of Some (JBool b) \<Rightarrow> Inr b | _ \<Rightarrow> Inl [([], invalid_type)])"

definition zNumber :: "rat \<Rightarrow> rat option \<Rightarrow> json option \<Rightarrow> rat parsed" where
  "zNumber lo hi v =
     (case v of
        Some (JNum n) \<Rightarrow>
          (let issues = (if n < lo then [([], too_small)] else []) @
                        (case hi of None \<Rightarrow> [] | Some h \<Rightarrow> if h < n then [([], too_big)] else [])
           in if issues = [] then Inr n else Inl issues)
      | _ \<Rightarrow> Inl [([], invalid_type)])"

definition zEnum :: "string list \<Rightarrow> json option \<Rightarrow> string parsed" where
  "zEnum allowed v =
     (case v of
        Some (JStr s) \<Rightarrow> if s \<in> set allowed then Inr s else Inl [([], invalid_enum_value)]
      | _ \<Rightarrow> Inl [([], invalid_type)])"

definition zOptional :: "(json option \<Rightarrow> 'a parsed) \<Rightarrow> json option \<Rightarrow> 'a option parsed" where
  "zOptional inner v = (case v of None \<Rightarrow> Inr None | Some _ \<Rightarrow> map_sum id Some (inner v))"

definition zDefault :: "'a \<Rightarrow> (json option \<Rightarrow> 'a parsed) \<Rightarrow> json option \<Rightarrow> 'a parsed" where
  "zDefault d inner v = (case v of None \<Rightarrow> Inr d | Some _ \<Rightarrow> inner v)"

definition under :: "path_elem \<Rightarrow> 'a parsed \<Rightarrow> 'a parsed" where
  "under k r = map_sum (map (\<lambda>(path, code). (k # path, code))) id r"

definition zAp :: "('a \<Rightarrow> 'b) parsed \<Rightarrow> 'a parsed \<Rightarrow> 'b parsed" where
  "zAp f x =
     (case f of
        Inr g \<Rightarrow> (case x of Inr v \<Rightarrow> Inr (g v) | Inl js \<Rightarrow> Inl js)
      | Inl is \<Rightarrow> (case x of Inr _ \<Rightarrow> Inl is | Inl js \<Rightarrow> Inl (is @ js)))"

fun zElements :: "(json option \<Rightarrow> 'a parsed) \<Rightarrow> nat \<Rightarrow> json list \<Rightarrow> 'a list parsed" where
  "zElements inner i [] = Inr []"
| "zElements inner i (x # xs) =
     zAp (map_sum id (#) (under (Index i) (inner (Some x)))) (zElements inner (Suc i) xs)"

definition zArray :: "(json option \<Rightarrow> 'a parsed) \<Rightarrow> json option \<Rightarrow> 'a list parsed" where
  "zArray inner v =
     (case v of Some (JArr xs) \<Rightarrow> zElements inner 0 xs | _ \<Rightarrow> Inl [([], invalid_type)])"

definition field :: "(json option \<Rightarrow> 'a parsed) \<Rightarrow> (string \<times> json) list \<Rightarrow> string \<Rightarrow> 'a parsed" where
  "field schema kvs k = under (Key k) (schema (map_of kvs k))"

record search_args =
  query :: string
  limit :: rat
  category :: "string option"
  min_score :: "rat option"

record detail_args =
  skill_id :: string
  include_content :: bool

record browse_args =
  category :: "string option"
  sort :: string
  limit :: rat
  offset :: rat
  min_score :: "rat option"

record recommend_args =
  "context" :: string
  current_skills :: "string list"
  limit :: rat

record install_args =
  skill_id :: string
  agents :: "string list option"
  confirm :: bool

definition SearchSkillsSchema :: "json option \<Rightarrow> search_args parsed" where
  "SearchSkillsSchema args =
     (case args of
        Some (JObj kvs) \<Rightarrow>
          zAp (zAp (zAp (zAp (Inr (\<lambda>q l c m.
                \<lparr>search_args.query = q, limit = l, category = c, min_score = m\<rparr>))
            (field zString kvs ''query''))
            (field (zDefault 5 (zNumber 1 (Some 20))) kvs ''limit''))
            (field (zOptional zString) kvs ''category''))
            (field (zOptional (zNumber 0 (Some 100))) kvs ''min_score'')
      | _ \<Rightarrow> Inl [([], invalid_type)])"

definition GetSkillDetailSchema :: "json option \<Rightarrow> detail_args parsed" where
  "GetSkillDetailSchema args =
     (case args of
        Some (JObj kvs) \<Rightarrow>
          zAp (zAp (Inr (\<lambda>i c. \<lparr>detail_args.skill_id = i, include_content = c\<rparr>))
            (field zString kvs ''skill_id''))
            (field (zDefault False zBoolean) kvs ''include_content'')
      | _ \<Rightarrow> Inl [([], invalid_type)])"

definition InstallSkillSchema :: "json option \<Rightarrow> install_args parsed" where
  "InstallSkillSchema args =
     (case args of
        Some (JObj kvs) \<Rightarrow>
          zAp (zAp (zAp (Inr (\<lambda>i a c. \<lparr>install_args.skill_id = i, agents = a, confirm = c\<rparr>))
            (field zString kvs ''skill_id''))
            (field (zOptional (zArray (zEnum [''claude'', ''codex'', ''gemini'', ''opencode''])))
               kvs ''agents''))
            (field (zDefault False zBoolean) kvs ''confirm'')
      | _ \<Rightarrow> Inl [([], invalid_type)])"

definition BrowseCatalogSchema :: "json option \<Rightarrow> browse_args parsed" where
  "BrowseCatalogSchema args =
     (case args of
        Some (JObj kvs) \<Rightarrow>
          zAp (zAp (zAp (zAp (zAp (Inr (\<lambda>c s l off m.
                \<lparr>browse_args.category = c, sort = s, limit = l, offset = off, min_score = m\<rparr>))
            (field (zOptional zString) kvs ''category''))
            (field (zDefault ''composite'' (zEnum [''score'', ''stars'', ''recent'', ''composite'']))
               kvs ''sort''))
            (field (zDefault 10 (zNumber 1 (Some 50))) kvs ''limit''))
            (field (zDefault 0 (zNumber 0 None)) kvs ''offset''))
            (field (zOptional (zNumber 0 (Some 100))) kvs ''min_score'')
      | _ \<Rightarrow> Inl [([], invalid_type)])"

definition RecommendSkillsSchema :: "json option \<Rightarrow> recommend_args parsed" where
  "RecommendSkillsSchema args =
     (case args of
        Some (JObj kvs) \<Rightarrow>
          zAp (zAp (zAp (Inr (\<lambda>c s l.
                \<lparr>recommend_args.context = c, current_skills = s, limit = l\<rparr>))
            (field zString kvs ''context''))
            (field (zDefault [] (zArray zString)) kvs ''current_skills''))
            (field (zDefault 5 (zNumber 1 (Some 10))) kvs ''limit'')
      | _ \<Rightarrow> Inl [([], invalid_type)])"

section \<open>Effects\<close>

text \<open>
  An \<^verbatim>\<open>async\<close> function is a computation on the world that returns a value or throws
  (rejects). The world has two parts: the log of the mutating calls the module has issued
  (directory creations, file writes, tracking POSTs), in order, and the state of everything
  outside the process (disk, network, clock), which is left abstract. What the outside
  answers to a call is a parameter of the model.
\<close>

record track_event =
  event_type :: string
  event_tool :: string
  event_args :: json
  event_success :: bool
  event_error :: "string option"
  duration_ms :: int
  event_metadata :: "(string \<times> string option) list"
  event_source :: string
  event_timestamp :: int

datatype effect = FsMkdir string | FsWriteFile string string | HttpPost track_event

record 'x world =
  effects :: "effect list"
  outside :: 'x

type_synonym ('a, 'x) io = "'x world \<Rightarrow> (thrown + 'a) \<times> 'x world"

definition returnIO :: "'a \<Rightarrow> ('a, 'x) io" where
  "returnIO v = (\<lambda>w. (Inr v, w))"

definition throwIO :: "thrown \<Rightarrow> ('a, 'x) io" where
  "throwIO e = (\<lambda>w. (Inl e, w))"

definition bindIO :: "('a, 'x) io \<Rightarrow> ('a \<Rightarrow> ('b, 'x) io) \<Rightarrow> ('b, 'x) io" where
  "bindIO m f = (\<lambda>w. case m w of (Inl e, w') \<Rightarrow> (Inl e, w') | (Inr v, w') \<Rightarrow> f v w')"

definition tryCatch :: "('a, 'x) io \<Rightarrow> (thrown \<Rightarrow> ('a, 'x) io) \<Rightarrow> ('a, 'x) io" where
  "tryCatch m h = (\<lambda>w. case m w of (Inl e, w') \<Rightarrow> h e w' | (Inr v, w') \<Rightarrow> (Inr v, w'))"

text \<open>A call that is not logged, and a call that is logged before it is answered.\<close>

definition ask :: "('x \<Rightarrow> (thrown + 'a) \<times> 'x) \<Rightarrow> ('a, 'x) io" where
  "ask f = (\<lambda>w. case f (outside w) of (r, x') \<Rightarrow> (r, w\<lparr>outside := x'\<rparr>))"

definition perform :: "effect \<Rightarrow> ('x \<Rightarrow> (thrown + 'a) \<times> 'x) \<Rightarrow> ('a, 'x) io" where
  "perform ef f =
     (\<lambda>w. case f (outside w) of (r, x') \<Rightarrow> (r, w\<lparr>effects := effects w @ [ef], outside := x'\<rparr>))"

record install_data =
  skill_name :: string
  skill_slug :: string
  skill_repo_url :: string
  install_content :: string
  one_liners_unix :: string
  one_liners_windows :: string

text \<open>
  The collaborators: the catalog client's \<^verbatim>\<open>getInstallInfo\<close>, \<^verbatim>\<open>fs.mkdir\<close> (recursive),
  \<^verbatim>\<open>fs.writeFile\<close>, \<^verbatim>\<open>fetch\<close>, \<^verbatim>\<open>Date.now\<close> and the text of a schema error. The four
  handlers that only query the catalog and format its answer (\<^verbatim>\<open>searchSkills\<close>,
  \<^verbatim>\<open>getSkillDetail\<close>, \<^verbatim>\<open>browseCatalog\<close>, \<^verbatim>\<open>recommendSkills\<close>) are parameters too: they
  act on the outside only, and return a text or throw.
\<close>

record 'x externals =
  getInstallInfo :: "string \<Rightarrow> string list \<Rightarrow> 'x \<Rightarrow> (thrown + install_data) \<times> 'x"
  fs_mkdir :: "string \<Rightarrow> 'x \<Rightarrow> (thrown + unit) \<times> 'x"
  fs_writeFile :: "string \<Rightarrow> string \<Rightarrow> 'x \<Rightarrow> (thrown + unit) \<times> 'x"
  fetch :: "track_event \<Rightarrow> 'x \<Rightarrow> (thrown + unit) \<times> 'x"
  Date_now :: "'x \<Rightarrow> int \<times> 'x"
  zod_message :: "zod_issue list \<Rightarrow> string"
  searchSkills :: "search_args \<Rightarrow> 'x \<Rightarrow> (thrown + string) \<times> 'x"
  getSkillDetail :: "detail_args \<Rightarrow> 'x \<Rightarrow> (thrown + string) \<times> 'x"
  browseCatalog :: "browse_args \<Rightarrow> 'x \<Rightarrow> (thrown + string) \<times> 'x"
  recommendSkills :: "recommend_args \<Rightarrow> 'x \<Rightarrow> (thrown + string) \<times> 'x"

definition now :: "'x externals \<Rightarrow> (int, 'x) io" where
  "now E = ask (\<lambda>x. case Date_now E x of (t, x') \<Rightarrow> (Inr t, x'))"

section \<open>The install workflow\<close>

text \<open>
  \<^verbatim>\<open>ALLOWED_INSTALL_DIRS\<close> has the four agents as its own keys; the lookup of any other name
  is \<^verbatim>\<open>undefined\<close>. (Names that a JavaScript object inherits, such as \<^verbatim>\<open>constructor\<close>,
  are not modelled: the schema of the tool admits the four keys only.)
\<close>

definition ALLOWED_INSTALL_DIRS :: "string \<Rightarrow> string \<rightharpoonup> string" where
  "ALLOWED_INSTALL_DIRS homeDir agent =
     (if agent = ''claude'' then Some (path_join [homeDir, ''.claude'', ''skills''])
      else if agent = ''codex'' then Some (path_join [homeDir, ''.codex'', ''skills''])
      else if agent = ''gemini'' then Some (path_join [homeDir, ''.gemini'', ''skills''])
      else if agent = ''opencode'' then Some (path_join [homeDir, ''.opencode'', ''skills''])
      else None)"

definition digitChar :: "nat \<Rightarrow> char" where
  "digitChar d = ''0123456789'' ! (d mod 10)"

fun showNat :: "nat \<Rightarrow> string" where
  "showNat n = (if n < 10 then [digitChar n] else showNat (n div 10) @ [digitChar (n mod 10)])"

text \<open>
  The preview. \<^verbatim>\<open>path.join\<close> throws a \<^verbatim>\<open>TypeError\<close> when the agent has no entry in the
  table, and the first agent that does so ends the \<^verbatim>\<open>map\<close>.
\<close>

definition previewLine :: "string \<Rightarrow> string \<Rightarrow> bool \<Rightarrow> string \<Rightarrow> string \<Rightarrow> thrown + string" where
  \<open>previewLine detected homeDir agentsGiven slug agent =
     (case ALLOWED_INSTALL_DIRS homeDir agent of
        None \<Rightarrow> Inl (JsError ''The "path" argument must be of type string. Received undefined'')
      | Some baseDir \<Rightarrow>
          (let isDetected = (agent = detected \<and> \<not> agentsGiven)
           in Inr (''- **'' @ agent @ ''**'' @ (if isDetected then '' (auto-detected)'' else []) @
                   '': `'' @ path_join [baseDir, slug, ''SKILL.md''] @ ''`'')))\<close>

fun previewLines :: "string \<Rightarrow> string \<Rightarrow> bool \<Rightarrow> string \<Rightarrow> string list \<Rightarrow> thrown + string list" where
  "previewLines detected homeDir agentsGiven slug [] = Inr []"
| "previewLines detected homeDir agentsGiven slug (agent # rest) =
     (case previewLine detected homeDir agentsGiven slug agent of
        Inl e \<Rightarrow> Inl e
      | Inr line \<Rightarrow>
          (case previewLines detected homeDir agentsGiven slug rest of
             Inl e \<Rightarrow> Inl e
           | Inr lines \<Rightarrow> Inr (line # lines)))"

definition previewText :: "string \<Rightarrow> install_data \<Rightarrow> string \<Rightarrow> string" where
  \<open>previewText detected data installPaths =
     ''# Install '' @ skill_name data @ ''?\<newline>\<newline>'' @
     ''## Target Environment\<newline>'' @
     ''Detected CLI: **'' @ detected @ ''**\<newline>\<newline>'' @
     ''## This will create:\<newline>'' @
     installPaths @ ''\<newline>\<newline>'' @
     ''## Skill Preview\<newline>'' @
     ''- **Name:** '' @ skill_name data @ ''\<newline>'' @
     ''- **Repository:** '' @ skill_repo_url data @ ''\<newline>'' @
     ''- **Content size:** '' @ showNat (length (install_content data)) @ '' characters\<newline>\<newline>'' @
     ''---\<newline>\<newline>'' @
     ''**To confirm installation, call again with `confirm: true`:**\<newline>'' @
     ''```\<newline>'' @
     ''install_skill({ skill_id: "'' @ skill_slug data @ ''", confirm: true })\<newline>'' @
     ''```\<newline>\<newline>'' @
     ''Or use one-liner commands:\<newline>\<newline>'' @
     ''### macOS / Linux\<newline>'' @
     ''```bash\<newline>'' @
     one_liners_unix data @ ''\<newline>'' @
     ''```\<newline>\<newline>'' @
     ''### Windows (PowerShell)\<newline>'' @
     ''```powershell\<newline>'' @
     one_liners_windows data @ ''\<newline>'' @
     ''```''\<close>

text \<open>
  The body of the Execute loop for one agent: the table lookup, the security check on the
  resolved paths, then \<^verbatim>\<open>mkdir\<close> and \<^verbatim>\<open>writeFile\<close> inside the \<^verbatim>\<open>try\<close>. Its result is the
  line pushed to \<^verbatim>\<open>installed\<close> or to \<^verbatim>\<open>errors\<close>.
\<close>

datatype outcome = Installed string | Failed string

definition securityCheck :: "string \<Rightarrow> string \<Rightarrow> string \<Rightarrow> bool" where
  "securityCheck cwd skillDir baseDir =
     (let resolvedDir = path_resolve cwd [skillDir];
          resolvedBase = path_resolve cwd [baseDir]
      in startsWith resolvedDir resolvedBase)"

definition installAgent ::
  "'x externals \<Rightarrow> string \<Rightarrow> string \<Rightarrow> install_data \<Rightarrow> string \<Rightarrow> (outcome, 'x) io" where
  \<open>installAgent E cwd homeDir data agent =
     (case ALLOWED_INSTALL_DIRS homeDir agent of
        None \<Rightarrow> returnIO (Failed (''Unknown agent: '' @ agent))
      | Some baseDir \<Rightarrow>
          if baseDir = [] then returnIO (Failed (''Unknown agent: '' @ agent))
          else
            (let skillDir = path_join [baseDir, skill_slug data];
                 skillFile = path_join [skillDir, ''SKILL.md'']
             in if \<not> securityCheck cwd skillDir baseDir
                then returnIO (Failed (''Security error: Invalid path for '' @ agent))
                else tryCatch
                  (bindIO (perform (FsMkdir skillDir) (fs_mkdir E skillDir)) (\<lambda>_.
                   bindIO (perform (FsWriteFile skillFile (install_content data))
                             (fs_writeFile E skillFile (install_content data))) (\<lambda>_.
                   returnIO (Installed (CHECK_MARK @ '' **'' @ agent @ ''**: `'' @ skillFile @ ''`'')))))
                  (\<lambda>err. returnIO (Failed (CROSS_MARK @ '' **'' @ agent @ ''**: '' @ errorMessage err)))))\<close>

fun executeLoop ::
  "'x externals \<Rightarrow> string \<Rightarrow> string \<Rightarrow> install_data \<Rightarrow> string list \<Rightarrow>
   string list \<Rightarrow> string list \<Rightarrow> (string list \<times> string list, 'x) io" where
  "executeLoop E cwd homeDir data [] installed errors = returnIO (installed, errors)"
| "executeLoop E cwd homeDir data (agent # rest) installed errors =
     bindIO (installAgent E cwd homeDir data agent) (\<lambda>r.
       case r of
         Installed line \<Rightarrow> executeLoop E cwd homeDir data rest (installed @ [line]) errors
       | Failed line \<Rightarrow> executeLoop E cwd homeDir data rest installed (errors @ [line]))"

definition renderReport :: "install_data \<Rightarrow> string list \<Rightarrow> string list \<Rightarrow> string" where
  \<open>renderReport data installed errors =
     ''# '' @ CHECK_MARK @ '' Installed: '' @ skill_name data @ ''\<newline>\<newline>'' @
     (if installed \<noteq> []
      then ''## Successfully Installed\<newline>'' @ joinWith ''\<newline>'' installed @ ''\<newline>\<newline>'' @
           ''> **Note:** Restart your AI agent or start a new conversation to load the skill.\<newline>\<newline>''
      else []) @
     (if errors \<noteq> []
      then ''## Errors\<newline>'' @ joinWith ''\<newline>'' errors @ ''\<newline>\<newline>''
      else []) @
     ''## Skill Info\<newline>'' @
     ''- **Repository:** '' @ skill_repo_url data @ ''\<newline>'' @
     ''- **Slug:** '' @ skill_slug data\<close>

definition targetAgentsOf :: "string \<Rightarrow> install_args \<Rightarrow> string list" where
  "targetAgentsOf detected a = (case agents a of Some given \<Rightarrow> given | None \<Rightarrow> [detected])"

definition installSkill ::
  "'x externals \<Rightarrow> string \<Rightarrow> string \<Rightarrow> string \<Rightarrow> install_args \<Rightarrow> (string, 'x) io" where
  "installSkill E detected cwd homeDir a =
     (let targetAgents = targetAgentsOf detected a
      in bindIO (ask (getInstallInfo E (install_args.skill_id a) targetAgents)) (\<lambda>data.
           if \<not> confirm a then
             (case previewLines detected homeDir (agents a \<noteq> None) (skill_slug data) targetAgents of
                Inl e \<Rightarrow> throwIO e
              | Inr lines \<Rightarrow> returnIO (previewText detected data (joinWith ''\<newline>'' lines)))
           else
             bindIO (executeLoop E cwd homeDir data targetAgents [] []) (\<lambda>(installed, errors).
               returnIO (renderReport data installed errors))))"

text \<open>
  The per-agent outcomes as one list in request order (the fold of the design notes), and
  the lines each of the two arrays of the loop receives from it.
\<close>

fun runAgents ::
  "'x externals \<Rightarrow> string \<Rightarrow> string \<Rightarrow> install_data \<Rightarrow> string list \<Rightarrow> (outcome list, 'x) io" where
  "runAgents E cwd homeDir data [] = returnIO []"
| "runAgents E cwd homeDir data (agent # rest) =
     bindIO (installAgent E cwd homeDir data agent) (\<lambda>r.
     bindIO (runAgents E cwd homeDir data rest) (\<lambda>rs. returnIO (r # rs)))"

fun successLines :: "outcome list \<Rightarrow> string list" where
  "successLines [] = []"
| "successLines (Installed line # rs) = line # successLines rs"
| "successLines (Failed line # rs) = successLines rs"

fun failureLines :: "outcome list \<Rightarrow> string list" where
  "failureLines [] = []"
| "failureLines (Installed line # rs) = failureLines rs"
| "failureLines (Failed line # rs) = line # failureLines rs"

fun outcomeLine :: "outcome \<Rightarrow> string" where
  "outcomeLine (Installed line) = line"
| "outcomeLine (Failed line) = line"

text \<open>
  Reading the outcomes back from a rendered report: the text is cut into its lines, and
  the outcome lines are those that begin like one of the four lines the loop pushes.
\<close>

fun splitLines :: "string \<Rightarrow> string list" where
  "splitLines [] = [[]]"
| "splitLines (c # cs) =
     (if c = CHR 0x0A then [] # splitLines cs
      else (case splitLines cs of [] \<Rightarrow> [[c]] | s # ss \<Rightarrow> (c # s) # ss))"

definition isOutcomeLine :: "string \<Rightarrow> bool" where
  "isOutcomeLine line =
     (startsWith line (CHECK_MARK @ '' **'') \<or> startsWith line (CROSS_MARK @ '' **'') \<or>
      startsWith line ''Unknown agent: '' \<or> startsWith line ''Security error: Invalid path for '')"

definition outcomeLinesOf :: "string \<Rightarrow> string list" where
  "outcomeLinesOf report = filter isOutcomeLine (splitLines report)"

section \<open>The tool dispatcher\<close>

record tool_result =
  result_text :: string
  isError :: bool

definition TOOL_NAMES :: "string list" where
  "TOOL_NAMES = [''search_skills'', ''get_skill_detail'', ''install_skill'', ''browse_catalog'',
                 ''recommend_skills'']"

text \<open>\<^verbatim>\<open>Schema.parse(args)\<close>: the parsed value, or a thrown \<^verbatim>\<open>ZodError\<close>.\<close>

definition parse :: "'x externals \<Rightarrow> (json option \<Rightarrow> 'a parsed) \<Rightarrow> json option \<Rightarrow> ('a, 'x) io" where
  "parse E schema rawArgs =
     (case schema rawArgs of
        Inl issues \<Rightarrow> throwIO (JsError (zod_message E issues))
      | Inr v \<Rightarrow> returnIO v)"

definition falsy :: "json \<Rightarrow> bool" where
  "falsy v = (v = JNull \<or> v = JBool False \<or> v = JNum 0 \<or> v = JStr [])"

definition argsOrEmpty :: "json option \<Rightarrow> json" where
  "argsOrEmpty rawArgs =
     (case rawArgs of None \<Rightarrow> JObj [] | Some v \<Rightarrow> if falsy v then JObj [] else v)"

text \<open>
  \<^verbatim>\<open>trackMCPCall\<close>: the event is built (reading the clock twice), posted with \<^verbatim>\<open>fetch\<close>, and
  both the rejection handler on the request and the enclosing \<^verbatim>\<open>try\<close> discard a failure.
  Building the event does not throw: the arguments were decoded from JSON and the metadata
  are strings. The URL and the headers of the request are left out of the event.
\<close>

definition trackMCPCall ::
  "'x externals \<Rightarrow> string \<Rightarrow> json option \<Rightarrow> int \<Rightarrow> bool \<Rightarrow> string option \<Rightarrow>
   (string \<times> string option) list \<Rightarrow> (unit, 'x) io" where
  "trackMCPCall E name rawArgs startTime ok err meta =
     tryCatch
       (bindIO (now E) (\<lambda>t1.
        bindIO (now E) (\<lambda>t2.
          (let ev = \<lparr>event_type = ''mcp.'' @ name, event_tool = name,
                     event_args = argsOrEmpty rawArgs, event_success = ok, event_error = err,
                     duration_ms = t1 - startTime, event_metadata = meta,
                     event_source = ''mcp_server'', event_timestamp = t2\<rparr>
           in tryCatch (perform (HttpPost ev) (fetch E ev)) (\<lambda>_. returnIO ())))))
       (\<lambda>_. returnIO ())"

definition runTool ::
  "'x externals \<Rightarrow> string \<Rightarrow> string \<Rightarrow> string \<Rightarrow> string \<Rightarrow> json option \<Rightarrow> int \<Rightarrow> (string, 'x) io" where
  "runTool E detected cwd homeDir name rawArgs startTime =
     (if name = ''search_skills'' then
        bindIO (parse E SearchSkillsSchema rawArgs) (\<lambda>parsedArgs.
        bindIO (ask (searchSkills E parsedArgs)) (\<lambda>result.
        bindIO (trackMCPCall E name rawArgs startTime True None
                  [(''query'', Some (search_args.query parsedArgs))]) (\<lambda>_.
        returnIO result)))
      else if name = ''get_skill_detail'' then
        bindIO (parse E GetSkillDetailSchema rawArgs) (\<lambda>parsedArgs.
        bindIO (ask (getSkillDetail E parsedArgs)) (\<lambda>result.
        bindIO (trackMCPCall E name rawArgs startTime True None
                  [(''skill_id'', Some (detail_args.skill_id parsedArgs))]) (\<lambda>_.
        returnIO result)))
      else if name = ''install_skill'' then
        bindIO (parse E InstallSkillSchema rawArgs) (\<lambda>parsedArgs.
        bindIO (installSkill E detected cwd homeDir parsedArgs) (\<lambda>result.
        bindIO (trackMCPCall E name rawArgs startTime True None
                  [(''skill_id'', Some (install_args.skill_id parsedArgs))]) (\<lambda>_.
        returnIO result)))
      else if name = ''browse_catalog'' then
        bindIO (parse E BrowseCatalogSchema rawArgs) (\<lambda>parsedArgs.
        bindIO (ask (browseCatalog E parsedArgs)) (\<lambda>result.
        bindIO (trackMCPCall E name rawArgs startTime True None
                  [(''category'', browse_args.category parsedArgs),
                   (''sort'', Some (browse_args.sort parsedArgs))]) (\<lambda>_.
        returnIO result)))
      else if name = ''recommend_skills'' then
        bindIO (parse E RecommendSkillsSchema rawArgs) (\<lambda>parsedArgs.
        bindIO (ask (recommendSkills E parsedArgs)) (\<lambda>result.
        bindIO (trackMCPCall E name rawArgs startTime True None
                  [(''context'', Some (take 100 (recommend_args.context parsedArgs)))]) (\<lambda>_.
        returnIO result)))
      else throwIO (JsError (''Unknown tool: '' @ name)))"

definition handleCallTool ::
  "'x externals \<Rightarrow> string \<Rightarrow> string \<Rightarrow> string \<Rightarrow> string \<Rightarrow> json option \<Rightarrow> (tool_result, 'x) io" where
  "handleCallTool E detected cwd homeDir name rawArgs =
     bindIO (now E) (\<lambda>startTime.
       tryCatch
         (bindIO (runTool E detected cwd homeDir name rawArgs startTime) (\<lambda>result.
            returnIO \<lparr>result_text = result, isError = False\<rparr>))
         (\<lambda>error.
            (let message = errorMessage error
             in bindIO (trackMCPCall E name rawArgs startTime False (Some message) []) (\<lambda>_.
                returnIO \<lparr>result_text = ''Error: '' @ message, isError = True\<rparr>))))"

text \<open>
  The five cases of the \<^verbatim>\<open>switch\<close> have one shape: parse, run the handler, track the
  success with some of the parsed arguments, and yield the handler's text.
\<close>

definition toolCase ::
  "'x externals \<Rightarrow> (json option \<Rightarrow> 'a parsed) \<Rightarrow> ('a \<Rightarrow> (string, 'x) io) \<Rightarrow>
   ('a \<Rightarrow> (string \<times> string option) list) \<Rightarrow> string \<Rightarrow> json option \<Rightarrow> int \<Rightarrow> (string, 'x) io" where
  "toolCase E schema handler meta name rawArgs startTime =
     bindIO (parse E schema rawArgs) (\<lambda>parsedArgs.
     bindIO (handler parsedArgs) (\<lambda>result.
     bindIO (trackMCPCall E name rawArgs startTime True None (meta parsedArgs)) (\<lambda>_.
     returnIO result)))"

text \<open>
  What a case of the \<^verbatim>\<open>switch\<close> does before it tracks: parse the raw arguments and run the
  handler. The world this leaves is the one in which the tracking call starts, on success
  (the handler's text is there) and on failure (the error was thrown there and caught).
\<close>

definition handlerPart ::
  "'x externals \<Rightarrow> string \<Rightarrow> string \<Rightarrow> string \<Rightarrow> string \<Rightarrow> json option \<Rightarrow> (string, 'x) io" where
  "handlerPart E detected cwd homeDir name rawArgs =
     (if name = ''search_skills'' then
        bindIO (parse E SearchSkillsSchema rawArgs) (\<lambda>parsedArgs. ask (searchSkills E parsedArgs))
      else if name = ''get_skill_detail'' then
        bindIO (parse E GetSkillDetailSchema rawArgs) (\<lambda>parsedArgs. ask (getSkillDetail E parsedArgs))
      else if name = ''install_skill'' then
        bindIO (parse E InstallSkillSchema rawArgs) (\<lambda>parsedArgs.
          installSkill E detected cwd homeDir parsedArgs)
      else if name = ''browse_catalog'' then
        bindIO (parse E BrowseCatalogSchema rawArgs) (\<lambda>parsedArgs. ask (browseCatalog E parsedArgs))
      else if name = ''recommend_skills'' then
        bindIO (parse E RecommendSkillsSchema rawArgs) (\<lambda>parsedArgs.
          ask (recommendSkills E parsedArgs))
      else throwIO (JsError (''Unknown tool: '' @ name)))"

text \<open>The issues the schema selected by a tool name finds in the raw arguments, if any.\<close>

definition schemaIssues :: "string \<Rightarrow> json option \<Rightarrow> zod_issue list option" where
  "schemaIssues name rawArgs =
     (if name = ''search_skills'' then
        (case SearchSkillsSchema rawArgs of Inl issues \<Rightarrow> Some issues | Inr _ \<Rightarrow> None)
      else if name = ''get_skill_detail'' then
        (case GetSkillDetailSchema rawArgs of Inl issues \<Rightarrow> Some issues | Inr _ \<Rightarrow> None)
      else if name = ''install_skill'' then
        (case InstallSkillSchema rawArgs of Inl issues \<Rightarrow> Some issues | Inr _ \<Rightarrow> None)
      else if name = ''browse_catalog'' then
        (case BrowseCatalogSchema rawArgs of Inl issues \<Rightarrow> Some issues | Inr _ \<Rightarrow> None)
      else if name = ''recommend_skills'' then
        (case RecommendSkillsSchema rawArgs of Inl issues \<Rightarrow> Some issues | Inr _ \<Rightarrow> None)
      else None)"

text \<open>
  A call that does nothing but fail with a message: the clock is read, the failure is
  tracked, and the error-flagged result is returned. No handler, client or file-system
  function occurs in it.
\<close>

definition rejectWith :: "'x externals \<Rightarrow> string \<Rightarrow> json option \<Rightarrow> string \<Rightarrow> (tool_result, 'x) io" where
  "rejectWith E name rawArgs message =
     bindIO (now E) (\<lambda>startTime.
     bindIO (trackMCPCall E name rawArgs startTime False (Some message) []) (\<lambda>_.
     returnIO \<lparr>result_text = ''Error: '' @ message, isError = True\<rparr>))"

definition posts :: "effect list \<Rightarrow> track_event list" where
  "posts efs = concat (map (\<lambda>ef. case ef of HttpPost ev \<Rightarrow> [ev] | _ \<Rightarrow> []) efs)"

section \<open>A concrete outside\<close>

text \<open>
  An outside to run the model on: its state is the clock, which advances by 7 at each
  reading; \<^verbatim>\<open>mkdir\<close> is refused under the listed paths, the tracking endpoint is down, and
  the catalog knows one skill, whose slug is given.
\<close>

definition sampleData :: "string \<Rightarrow> install_data" where
  "sampleData slug =
     \<lparr>skill_name = ''PDF Tools'', skill_slug = slug, skill_repo_url = ''https://example.org/r'',
      install_content = ''# skill'', one_liners_unix = ''curl -fsSL u | bash'',
      one_liners_windows = ''irm w | iex''\<rparr>"

definition sampleOutside :: "string \<Rightarrow> string list \<Rightarrow> int externals" where
  "sampleOutside slug denied =
     \<lparr>getInstallInfo = (\<lambda>skillId targets x. (Inr (sampleData slug), x)),
      fs_mkdir = (\<lambda>p x. if p \<in> set denied then (Inl (JsError ''EACCES: permission denied''), x)
                         else (Inr (), x)),
      fs_writeFile = (\<lambda>p c x. (Inr (), x)),
      fetch = (\<lambda>ev x. (Inl (JsError ''fetch failed''), x)),
      Date_now = (\<lambda>x. (x, x + 7)),
      zod_message = (\<lambda>issues. ''invalid arguments''),
      searchSkills = (\<lambda>a x. (Inr ''found'', x)),
      getSkillDetail = (\<lambda>a x. (Inl (JsError ''HTTP 404''), x)),
      browseCatalog = (\<lambda>a x. (Inr ''catalog'', x)),
      recommendSkills = (\<lambda>a x. (Inr ''recommended'', x))\<rparr>"

definition world0 :: "int world" where
  "world0 = \<lparr>effects = [], outside = 1000\<rparr>"

text \<open>
  Two readings of one Execute run: the outcome lines in the order of the requested agents,
  and the outcome lines read from the report that \<^const>\<open>renderReport\<close> makes of the two
  arrays of the loop, in the order in which they stand in its text.
\<close>

definition requestOrder ::
  "'x externals \<Rightarrow> string \<Rightarrow> string \<Rightarrow> install_data \<Rightarrow> string list \<Rightarrow> 'x world \<Rightarrow> string list" where
  "requestOrder E cwd homeDir data targets w =
     (case runAgents E cwd homeDir data targets w of
        (Inr outs, _) \<Rightarrow> map outcomeLine outs
      | (Inl _, _) \<Rightarrow> [])"

definition reportOrder ::
  "'x externals \<Rightarrow> string \<Rightarrow> string \<Rightarrow> install_data \<Rightarrow> string list \<Rightarrow> 'x world \<Rightarrow> string list" where
  "reportOrder E cwd homeDir data targets w =
     (case executeLoop E cwd homeDir data targets [] [] w of
        (Inr (installed, errors), _) \<Rightarrow> outcomeLinesOf (renderReport data installed errors)
      | (Inl _, _) \<Rightarrow> [])"

section \<open>Properties of agent detection\<close>

text \<open>No directory check ever hits: the loop over the configuration directories falls through.\<close>

lemma checkDirs_default: "checkDirs statSync checks = ''claude''"
  by (induction checks) (auto simp: require_def)

text \<open>
  C7. A valid explicit override wins over every other signal: when
  \<^verbatim>\<open>SKILLHUB_DEFAULT_AGENT\<close> names one of the four agent kinds, \<^const>\<open>detectCurrentAgent\<close>
  returns that value, whatever the rest of the environment and the file system say. When
  none of the six environment variables is set to a non-empty value and none of the four
  configuration directories is reported as a directory, the result is \<^verbatim>\<open>claude\<close>.
\<close>

theorem detectCurrentAgent_override_and_default:
  "(env ''SKILLHUB_DEFAULT_AGENT'' = Some a \<and> a \<in> set AGENT_KINDS
      \<longrightarrow> detectCurrentAgent env homeDir statSync = a) \<and>
   ((\<forall>v \<in> {''SKILLHUB_DEFAULT_AGENT'', ''CLAUDE_CODE'', ''ANTHROPIC_API_KEY'', ''CODEX_HOME'',
            ''OPENAI_API_KEY'', ''GEMINI_API_KEY''}. \<not> truthy (env v)) \<and>
    (\<forall>j<4. statSync (path_join [homeDir, ''.'' @ AGENT_KINDS ! j]) \<noteq> Inr True)
      \<longrightarrow> detectCurrentAgent env homeDir statSync = ''claude'')"
proof (intro conjI impI)
  assume "env ''SKILLHUB_DEFAULT_AGENT'' = Some a \<and> a \<in> set AGENT_KINDS"
  then show "detectCurrentAgent env homeDir statSync = a"
    by (auto simp: detectCurrentAgent_def AGENT_KINDS_def)
next
  assume h: "(\<forall>v \<in> {''SKILLHUB_DEFAULT_AGENT'', ''CLAUDE_CODE'', ''ANTHROPIC_API_KEY'', ''CODEX_HOME'',
            ''OPENAI_API_KEY'', ''GEMINI_API_KEY''}. \<not> truthy (env v)) \<and>
    (\<forall>j<4. statSync (path_join [homeDir, ''.'' @ AGENT_KINDS ! j]) \<noteq> Inr True)"
  have sig: "detectFromSignals env homeDir statSync = checkDirs statSync (configDirs homeDir)"
    using h by (simp add: detectFromSignals_def)
  have "detectCurrentAgent env homeDir statSync = detectFromSignals env homeDir statSync"
    using h by (auto simp: detectCurrentAgent_def truthy_def AGENT_KINDS_def split: option.splits)
  with sig checkDirs_default show "detectCurrentAgent env homeDir statSync = ''claude''"
    by simp
qed

theorem detectCurrentAgent_override_and_default_witness:
  "detectCurrentAgent [''SKILLHUB_DEFAULT_AGENT'' \<mapsto> ''gemini'', ''ANTHROPIC_API_KEY'' \<mapsto> ''k'']
     ''/home/u'' (\<lambda>dir. Inr True) = ''gemini'' \<and>
   detectCurrentAgent Map.empty ''/home/u'' (\<lambda>dir. Inl (JsError ''ENOENT'')) = ''claude''"
proof -
  let ?env = "[''SKILLHUB_DEFAULT_AGENT'' \<mapsto> ''gemini'', ''ANTHROPIC_API_KEY'' \<mapsto> ''k'']"
  have h1: "?env ''SKILLHUB_DEFAULT_AGENT'' = Some ''gemini'' \<and> ''gemini'' \<in> set AGENT_KINDS"
    by (simp add: AGENT_KINDS_def)
  have h2: "(\<forall>v \<in> {''SKILLHUB_DEFAULT_AGENT'', ''CLAUDE_CODE'', ''ANTHROPIC_API_KEY'', ''CODEX_HOME'',
            ''OPENAI_API_KEY'', ''GEMINI_API_KEY''}. \<not> truthy (Map.empty v)) \<and>
    (\<forall>j<4. (\<lambda>dir. Inl (JsError ''ENOENT'')) (path_join [''/home/u'', ''.'' @ AGENT_KINDS ! j])
       \<noteq> (Inr True :: thrown + bool))"
    by (simp add: truthy_def)
  from detectCurrentAgent_override_and_default
         [of ?env "''gemini''" "''/home/u''" "\<lambda>dir. Inr True"] h1
  have a: "detectCurrentAgent ?env ''/home/u'' (\<lambda>dir. Inr True) = ''gemini''"
    by blast
  from detectCurrentAgent_override_and_default
         [of Map.empty _ "''/home/u''" "\<lambda>dir. Inl (JsError ''ENOENT'')"] h2
  have b: "detectCurrentAgent Map.empty ''/home/u'' (\<lambda>dir. Inl (JsError ''ENOENT'')) = ''claude''"
    by blast
  from a b show ?thesis by simp
qed

text \<open>
  Without a valid override and without agent-specific environment variables the detector
  returns \<^verbatim>\<open>claude\<close>, whatever \<^verbatim>\<open>statSync\<close> would report about the configuration
  directories.
\<close>

lemma detectCurrentAgent_ignores_config_dirs:
  assumes "\<not> (\<exists>a. env ''SKILLHUB_DEFAULT_AGENT'' = Some a \<and> a \<in> set AGENT_KINDS)"
    and "\<forall>v \<in> {''CLAUDE_CODE'', ''ANTHROPIC_API_KEY'', ''CODEX_HOME'',
            ''OPENAI_API_KEY'', ''GEMINI_API_KEY''}. \<not> truthy (env v)"
  shows "detectCurrentAgent env homeDir statSync = ''claude''"
proof -
  have "detectFromSignals env homeDir statSync = checkDirs statSync (configDirs homeDir)"
    using assms(2) by (simp add: detectFromSignals_def)
  with assms(1) checkDirs_default show ?thesis
    by (auto simp: detectCurrentAgent_def split: option.splits)
qed

text \<open>
  C8. An existing configuration directory is not detected. With no environment variable
  set and \<^verbatim>\<open>.codex\<close> the only configuration directory under the home directory (the
  check of \<^verbatim>\<open>.claude\<close> would fail, \<^verbatim>\<open>.codex\<close> is a directory), the first candidate whose
  directory exists is codex; the detector returns \<^verbatim>\<open>claude\<close>, because every check throws
  at \<^verbatim>\<open>require\<close> before \<^verbatim>\<open>statSync\<close> is called.
\<close>

theorem existing_config_dir_is_not_detected:
  "configDirs ''/home/u'' ! 0 = (''claude'', ''/home/u/.claude'') \<and>
   configDirs ''/home/u'' ! 1 = (''codex'', ''/home/u/.codex'') \<and>
   (\<lambda>dir. if dir = ''/home/u/.codex'' then Inr True else Inl (JsError ''ENOENT''))
      (snd (configDirs ''/home/u'' ! 0)) = (Inl (JsError ''ENOENT'') :: thrown + bool) \<and>
   (\<lambda>dir. if dir = ''/home/u/.codex'' then Inr True else Inl (JsError ''ENOENT''))
      (snd (configDirs ''/home/u'' ! 1)) = (Inr True :: thrown + bool) \<and>
   detectCurrentAgent Map.empty ''/home/u''
     (\<lambda>dir. if dir = ''/home/u/.codex'' then Inr True else Inl (JsError ''ENOENT'')) = ''claude''"
proof -
  have c: "configDirs ''/home/u'' ! 0 = (''claude'', ''/home/u/.claude'')"
    by (simp add: configDirs_def path_join_def path_normalize_def normalizeString_def
          isAbsolute_def)
  have d: "configDirs ''/home/u'' ! 1 = (''codex'', ''/home/u/.codex'')"
    by (simp add: configDirs_def path_join_def path_normalize_def normalizeString_def
          isAbsolute_def)
  have r: "detectCurrentAgent Map.empty ''/home/u''
     (\<lambda>dir. if dir = ''/home/u/.codex'' then Inr True else Inl (JsError ''ENOENT'')) = ''claude''"
    by (simp add: detectCurrentAgent_def detectFromSignals_def truthy_def checkDirs_default)
  from c d r show ?thesis by simp
qed

section \<open>Properties of the install workflow\<close>

lemma path_normalize_nonempty: "path_normalize p \<noteq> []"
  by (simp add: path_normalize_def Let_def)

lemma path_join_nonempty: "path_join args \<noteq> []"
  by (simp add: path_join_def Let_def path_normalize_nonempty)

lemma ALLOWED_INSTALL_DIRS_total:
  "agent \<in> set AGENT_KINDS \<Longrightarrow> \<exists>baseDir. ALLOWED_INSTALL_DIRS homeDir agent = Some baseDir \<and> baseDir \<noteq> []"
  by (auto simp: AGENT_KINDS_def ALLOWED_INSTALL_DIRS_def path_join_nonempty)

lemma zAp_Inr: "zAp f x = Inr y \<Longrightarrow> \<exists>g v. f = Inr g \<and> x = Inr v \<and> y = g v"
  by (auto simp: zAp_def split: sum.splits)

lemma under_Inr: "under k r = Inr v \<longleftrightarrow> r = Inr v"
  by (cases r) (auto simp: under_def)

lemma zElements_enum:
  "zElements (zEnum allowed) i xs = Inr ys \<Longrightarrow> set ys \<subseteq> set allowed"
proof (induction xs arbitrary: i ys)
  case Nil
  then show ?case by simp
next
  case (Cons x xs)
  from Cons.prems obtain g v where
    g: "map_sum id (#) (under (Index i) (zEnum allowed (Some x))) = Inr g"
    and v: "zElements (zEnum allowed) (Suc i) xs = Inr v" and ys: "ys = g v"
    by (auto dest: zAp_Inr)
  from g obtain y where y: "zEnum allowed (Some x) = Inr y" and gy: "g = (#) y"
    by (cases "zEnum allowed (Some x)") (auto simp: under_def)
  from y have "y \<in> set allowed"
    by (auto simp: zEnum_def split: json.splits if_splits)
  with Cons.IH [OF v] ys gy show ?case by simp
qed

lemma InstallSkillSchema_agents:
  assumes "InstallSkillSchema rawArgs = Inr a" and "agents a = Some given"
  shows "set given \<subseteq> set AGENT_KINDS"
proof -
  from assms(1) obtain kvs where raw: "rawArgs = Some (JObj kvs)"
    by (auto simp: InstallSkillSchema_def split: option.splits json.splits)
  from assms(1) raw obtain g c where
    1: "zAp (zAp (Inr (\<lambda>i a c. \<lparr>install_args.skill_id = i, agents = a, confirm = c\<rparr>))
            (field zString kvs ''skill_id''))
            (field (zOptional (zArray (zEnum [''claude'', ''codex'', ''gemini'', ''opencode''])))
               kvs ''agents'') = Inr g" and a: "a = g c"
    by (auto simp: InstallSkillSchema_def dest: zAp_Inr)
  from 1 obtain h ag where
    2: "zAp (Inr (\<lambda>i a c. \<lparr>install_args.skill_id = i, agents = a, confirm = c\<rparr>))
            (field zString kvs ''skill_id'') = Inr h"
    and 3: "field (zOptional (zArray (zEnum [''claude'', ''codex'', ''gemini'', ''opencode''])))
               kvs ''agents'' = Inr ag" and g: "g = h ag"
    by (auto dest: zAp_Inr)
  from 2 obtain i where h: "h = (\<lambda>a c. \<lparr>install_args.skill_id = i, agents = a, confirm = c\<rparr>)"
    by (auto dest!: zAp_Inr)
  from a g h assms(2) have ag: "ag = Some given" by simp
  from 3 ag have "zOptional (zArray (zEnum [''claude'', ''codex'', ''gemini'', ''opencode'']))
      (map_of kvs ''agents'') = Inr (Some given)"
    by (simp add: field_def under_Inr)
  then have "zArray (zEnum [''claude'', ''codex'', ''gemini'', ''opencode'']) (map_of kvs ''agents'') = Inr given"
    by (cases "map_of kvs ''agents''";
        cases "zArray (zEnum [''claude'', ''codex'', ''gemini'', ''opencode'']) (map_of kvs ''agents'')")
       (auto simp: zOptional_def)
  then obtain xs where "zElements (zEnum [''claude'', ''codex'', ''gemini'', ''opencode'']) 0 xs = Inr given"
    by (auto simp: zArray_def split: option.splits json.splits)
  from zElements_enum [OF this] show ?thesis by (simp add: AGENT_KINDS_def)
qed

lemma checkDirs_kind: "checkDirs statSync checks \<in> set AGENT_KINDS"
  by (simp add: checkDirs_default AGENT_KINDS_def)

lemma detectCurrentAgent_kind: "detectCurrentAgent env homeDir statSync \<in> set AGENT_KINDS"
proof -
  have "checkDirs statSync (configDirs homeDir) \<in> set AGENT_KINDS"
    by (rule checkDirs_kind)
  then have "detectFromSignals env homeDir statSync \<in> set AGENT_KINDS"
    by (auto simp: detectFromSignals_def AGENT_KINDS_def)
  then show ?thesis
    by (auto simp: detectCurrentAgent_def split: option.splits)
qed

lemma installAgent_returns:
  "\<exists>r w'. installAgent E cwd homeDir data agent w = (Inr r, w')"
  by (auto simp: installAgent_def Let_def returnIO_def tryCatch_def bindIO_def perform_def
           split: option.splits sum.splits prod.splits)

lemma runAgents_Cons:
  "runAgents E cwd homeDir data (agent # rest) w =
     (case installAgent E cwd homeDir data agent w of
        (Inl e, w1) \<Rightarrow> (Inl e, w1)
      | (Inr r, w1) \<Rightarrow>
          (case runAgents E cwd homeDir data rest w1 of
             (Inl e, w2) \<Rightarrow> (Inl e, w2)
           | (Inr rs, w2) \<Rightarrow> (Inr (r # rs), w2)))"
  by (simp add: bindIO_def returnIO_def split: prod.splits sum.splits)

lemma runAgents_returns:
  "\<exists>outs w'. runAgents E cwd homeDir data targets w = (Inr outs, w') \<and> length outs = length targets"
proof (induction targets arbitrary: w)
  case Nil
  then show ?case by (simp add: returnIO_def)
next
  case (Cons agent rest)
  obtain r w1 where 1: "installAgent E cwd homeDir data agent w = (Inr r, w1)"
    using installAgent_returns by blast
  obtain rs w2 where 2: "runAgents E cwd homeDir data rest w1 = (Inr rs, w2)" "length rs = length rest"
    using Cons.IH by blast
  from 1 2 show ?case by (simp add: runAgents_Cons del: runAgents.simps)
qed

lemma runAgents_append:
  "runAgents E cwd homeDir data xs w = (Inr os1, w1) \<Longrightarrow>
   runAgents E cwd homeDir data ys w1 = (Inr os2, w2) \<Longrightarrow>
   runAgents E cwd homeDir data (xs @ ys) w = (Inr (os1 @ os2), w2)"
proof (induction xs arbitrary: w os1)
  case Nil
  then show ?case by (simp add: returnIO_def)
next
  case (Cons agent rest)
  obtain r wa where 1: "installAgent E cwd homeDir data agent w = (Inr r, wa)"
    using installAgent_returns by blast
  obtain rs wb where 2: "runAgents E cwd homeDir data rest wa = (Inr rs, wb)"
    using runAgents_returns by blast
  from Cons.prems(1) 1 2 have eq: "os1 = r # rs" "w1 = wb"
    by (simp_all add: runAgents_Cons del: runAgents.simps)
  from Cons.IH [of wa rs] 2 Cons.prems(2) eq
  have "runAgents E cwd homeDir data (rest @ ys) wa = (Inr (rs @ os2), w2)" by simp
  with 1 eq show ?case by (simp add: runAgents_Cons del: runAgents.simps)
qed

lemma successLines_append: "successLines (xs @ ys) = successLines xs @ successLines ys"
  by (induction xs rule: successLines.induct) auto

lemma failureLines_append: "failureLines (xs @ ys) = failureLines xs @ failureLines ys"
  by (induction xs rule: failureLines.induct) auto

lemma executeLoop_runAgents:
  "runAgents E cwd homeDir data targets w = (Inr outs, w') \<Longrightarrow>
   executeLoop E cwd homeDir data targets installed errors w =
     (Inr (installed @ successLines outs, errors @ failureLines outs), w')"
proof (induction targets arbitrary: w outs installed errors)
  case Nil
  then show ?case by (simp add: returnIO_def)
next
  case (Cons agent rest)
  obtain r wa where 1: "installAgent E cwd homeDir data agent w = (Inr r, wa)"
    using installAgent_returns by blast
  obtain rs wb where 2: "runAgents E cwd homeDir data rest wa = (Inr rs, wb)"
    using runAgents_returns by blast
  from Cons.prems 1 2 have eq: "outs = r # rs" "w' = wb"
    by (simp_all add: runAgents_Cons del: runAgents.simps)
  from 2 eq have 3: "runAgents E cwd homeDir data rest wa = (Inr rs, w')" by simp
  show ?case
  proof (cases r)
    case (Installed line)
    from Cons.IH [OF 3, of "installed @ [line]" errors] 1 eq Installed
    show ?thesis by (simp add: bindIO_def)
  next
    case (Failed line)
    from Cons.IH [OF 3, of installed "errors @ [line]"] 1 eq Failed
    show ?thesis by (simp add: bindIO_def)
  qed
qed

lemma installAgent_known:
  assumes "agent \<in> set AGENT_KINDS"
    and "installAgent E cwd homeDir data agent w = (Inr r, w')"
  shows "\<not> startsWith (outcomeLine r) ''Unknown agent: ''"
proof -
  obtain baseDir where b: "ALLOWED_INSTALL_DIRS homeDir agent = Some baseDir" "baseDir \<noteq> []"
    using ALLOWED_INSTALL_DIRS_total [OF assms(1)] by blast
  from assms(2) b show ?thesis
    by (auto simp: installAgent_def Let_def returnIO_def tryCatch_def bindIO_def perform_def
          startsWith_def CHECK_MARK_def CROSS_MARK_def
          split: sum.splits prod.splits if_splits)
qed

lemma runAgents_known:
  "set targets \<subseteq> set AGENT_KINDS \<Longrightarrow> runAgents E cwd homeDir data targets w = (Inr outs, w') \<Longrightarrow>
   \<forall>r \<in> set outs. \<not> startsWith (outcomeLine r) ''Unknown agent: ''"
proof (induction targets arbitrary: w outs w')
  case Nil
  then show ?case by (simp add: returnIO_def)
next
  case (Cons agent rest)
  obtain r wa where 1: "installAgent E cwd homeDir data agent w = (Inr r, wa)"
    using installAgent_returns by blast
  obtain rs wb where 2: "runAgents E cwd homeDir data rest wa = (Inr rs, wb)"
    using runAgents_returns by blast
  from Cons.prems(2) 1 2 have eq: "outs = r # rs"
    by (simp add: runAgents_Cons del: runAgents.simps)
  from Cons.prems(1) have "agent \<in> set AGENT_KINDS" "set rest \<subseteq> set AGENT_KINDS" by simp_all
  with installAgent_known [OF _ 1] Cons.IH [OF _ 2] eq show ?case by simp
qed

lemma failureLines_subset: "set (failureLines outs) \<subseteq> outcomeLine ` set outs"
  by (induction outs rule: failureLines.induct) auto

text \<open>
  C10. When the raw arguments of \<^verbatim>\<open>install_skill\<close> pass \<^const>\<open>InstallSkillSchema\<close>, every
  target agent (the given list, or the detected agent when none is given) is one of the
  four agent kinds and has a non-empty entry in \<^const>\<open>ALLOWED_INSTALL_DIRS\<close>; the Execute
  loop over these agents never pushes an \<^verbatim>\<open>Unknown agent\<close> line.
\<close>

theorem validated_agents_have_install_dirs:
  assumes "InstallSkillSchema rawArgs = Inr a"
    and "targets = targetAgentsOf (detectCurrentAgent env homeDir statSync) a"
  shows "(\<forall>agent \<in> set targets. agent \<in> set AGENT_KINDS \<and>
            (\<exists>baseDir. ALLOWED_INSTALL_DIRS homeDir agent = Some baseDir \<and> baseDir \<noteq> [])) \<and>
         (\<exists>installed errors w'.
            executeLoop E cwd homeDir data targets [] [] w = (Inr (installed, errors), w') \<and>
            (\<forall>line \<in> set errors. \<not> startsWith line ''Unknown agent: ''))"
proof -
  have kinds: "set targets \<subseteq> set AGENT_KINDS"
  proof (cases "agents a")
    case None
    with assms(2) detectCurrentAgent_kind [of env homeDir statSync] show ?thesis
      by (simp add: targetAgentsOf_def)
  next
    case (Some given)
    with assms(2) InstallSkillSchema_agents [OF assms(1) Some] show ?thesis
      by (simp add: targetAgentsOf_def)
  qed
  obtain outs w' where run: "runAgents E cwd homeDir data targets w = (Inr outs, w')"
    using runAgents_returns by blast
  from executeLoop_runAgents [OF run, of "[]" "[]"]
  have loop: "executeLoop E cwd homeDir data targets [] [] w =
      (Inr (successLines outs, failureLines outs), w')" by simp
  from runAgents_known [OF kinds run] failureLines_subset [of outs]
  have "\<forall>line \<in> set (failureLines outs). \<not> startsWith line ''Unknown agent: ''" by auto
  with loop kinds ALLOWED_INSTALL_DIRS_total show ?thesis by blast
qed

theorem validated_agents_have_install_dirs_witness:
  "\<exists>a. InstallSkillSchema (Some (JObj [(''skill_id'', JStr ''pdf''),
          (''agents'', JArr [JStr ''gemini'', JStr ''opencode''])])) = Inr a \<and>
       targetAgentsOf (detectCurrentAgent Map.empty ''/home/u'' (\<lambda>dir. Inr True)) a = [''gemini'', ''opencode''] \<and>
       (\<forall>agent \<in> set [''gemini'', ''opencode'']. agent \<in> set AGENT_KINDS \<and>
          (\<exists>baseDir. ALLOWED_INSTALL_DIRS ''/home/u'' agent = Some baseDir \<and> baseDir \<noteq> [])) \<and>
       (\<exists>installed errors w'.
          executeLoop (sampleOutside ''pdf'' []) ''/srv'' ''/home/u'' (sampleData ''pdf'')
            [''gemini'', ''opencode''] [] [] world0 = (Inr (installed, errors), w') \<and>
          (\<forall>line \<in> set errors. \<not> startsWith line ''Unknown agent: ''))"
proof -
  let ?a = "\<lparr>install_args.skill_id = ''pdf'', agents = Some [''gemini'', ''opencode''], confirm = False\<rparr>"
  have p: "InstallSkillSchema (Some (JObj [(''skill_id'', JStr ''pdf''),
          (''agents'', JArr [JStr ''gemini'', JStr ''opencode''])])) = Inr ?a"
    by (simp add: InstallSkillSchema_def field_def zAp_def under_def zString_def zOptional_def
          zArray_def zEnum_def zDefault_def zBoolean_def)
  have t: "[''gemini'', ''opencode''] =
     targetAgentsOf (detectCurrentAgent Map.empty ''/home/u'' (\<lambda>dir. Inr True)) ?a"
    by (simp add: targetAgentsOf_def)
  from validated_agents_have_install_dirs [OF p t,
         of "sampleOutside ''pdf'' []" "''/srv''" "sampleData ''pdf''" world0] p t
  show ?thesis by simp
qed

lemmas path_defs = path_join_def path_normalize_def normalizeString_def isAbsolute_def
  path_resolve_def

lemma join_claude: "path_join [''/home/u'', ''.claude'', ''skills''] = ''/home/u/.claude/skills''"
  by (simp add: path_defs)

lemma join_evil: "path_join [''/home/u/.claude/skills'', ''../skills-evil''] = ''/home/u/.claude/skills-evil''"
  by (simp add: path_defs)

lemma join_evil_file: "path_join [''/home/u/.claude/skills-evil'', ''SKILL.md''] = ''/home/u/.claude/skills-evil/SKILL.md''"
  by (simp add: path_defs)

lemma resolve_base: "path_resolve ''/srv'' [''/home/u/.claude/skills''] = ''/home/u/.claude/skills''"
  by (simp add: path_defs)

lemma resolve_evil: "path_resolve ''/srv'' [''/home/u/.claude/skills-evil''] = ''/home/u/.claude/skills-evil''"
  by (simp add: path_defs)

text \<open>
  C2. The check of the source compares the resolved strings with \<^verbatim>\<open>startsWith\<close>, not the
  path components: the sibling \<^verbatim>\<open>/a/bee\<close> of the base \<^verbatim>\<open>/a/b\<close> passes it, and so does
  the directory computed for the agent codex from the slug \<^verbatim>\<open>../skills2/x\<close>, although
  neither lies under its base component-wise.
\<close>

theorem sibling_prefix_passes_security_check:
  "securityCheck ''/srv'' ''/a/bee'' ''/a/b'' \<and>
   \<not> properComponentPrefix (path_resolve ''/srv'' [''/a/b'']) (path_resolve ''/srv'' [''/a/bee'']) \<and>
   ALLOWED_INSTALL_DIRS ''/home/u'' ''codex'' = Some ''/home/u/.codex/skills'' \<and>
   path_join [''/home/u/.codex/skills'', ''../skills2/x''] = ''/home/u/.codex/skills2/x'' \<and>
   securityCheck ''/srv'' ''/home/u/.codex/skills2/x'' ''/home/u/.codex/skills'' \<and>
   \<not> properComponentPrefix (path_resolve ''/srv'' [''/home/u/.codex/skills''])
        (path_resolve ''/srv'' [''/home/u/.codex/skills2/x''])"
  by (simp add: securityCheck_def startsWith_def path_defs properComponentPrefix_def
        pathComponents_def ALLOWED_INSTALL_DIRS_def)

text \<open>
  What the check does achieve: a directory whose resolved string does not start with the
  resolved base is refused, and nothing is created or written for that agent.
\<close>

lemma installAgent_refuses_non_prefix:
  assumes "ALLOWED_INSTALL_DIRS homeDir agent = Some baseDir" and "baseDir \<noteq> []"
    and "\<not> securityCheck cwd (path_join [baseDir, skill_slug data]) baseDir"
  shows "installAgent E cwd homeDir data agent w =
           (Inr (Failed (''Security error: Invalid path for '' @ agent)), w)"
  using assms by (simp add: installAgent_def Let_def returnIO_def)

lemma installAgent_refuses_parent:
  "installAgent (sampleOutside ''../../x'' []) ''/srv'' ''/home/u'' (sampleData ''../../x'')
     ''claude'' world0 =
   (Inr (Failed ''Security error: Invalid path for claude''), world0)"
  by (simp add: installAgent_def ALLOWED_INSTALL_DIRS_def sampleData_def path_defs
        securityCheck_def startsWith_def returnIO_def)

text \<open>
  C1. For the agent claude and the slug \<^verbatim>\<open>../skills-evil\<close> the computed directory resolves
  to a sibling of the install root, outside it; the loop body records no path-escape
  failure: it creates that directory, writes the file there and reports success.
\<close>

theorem escaping_slug_is_installed:
  "ALLOWED_INSTALL_DIRS ''/home/u'' ''claude'' = Some ''/home/u/.claude/skills'' \<and>
   \<not> properComponentPrefix (path_resolve ''/srv'' [''/home/u/.claude/skills''])
        (path_resolve ''/srv'' [path_join [''/home/u/.claude/skills'', ''../skills-evil'']]) \<and>
   installAgent (sampleOutside ''../skills-evil'' []) ''/srv'' ''/home/u''
       (sampleData ''../skills-evil'') ''claude'' world0 =
     (Inr (Installed (CHECK_MARK @ '' **claude**: `/home/u/.claude/skills-evil/SKILL.md`'')),
      \<lparr>effects = [FsMkdir ''/home/u/.claude/skills-evil'',
                  FsWriteFile ''/home/u/.claude/skills-evil/SKILL.md'' ''# skill''],
       outside = 1000\<rparr>)"
proof -
  have a: "ALLOWED_INSTALL_DIRS ''/home/u'' ''claude'' = Some ''/home/u/.claude/skills''"
    by (simp add: ALLOWED_INSTALL_DIRS_def join_claude)
  have b: "\<not> properComponentPrefix (path_resolve ''/srv'' [''/home/u/.claude/skills''])
        (path_resolve ''/srv'' [path_join [''/home/u/.claude/skills'', ''../skills-evil'']])"
    by (simp add: join_evil resolve_base resolve_evil properComponentPrefix_def pathComponents_def)
  have c: "securityCheck ''/srv'' ''/home/u/.claude/skills-evil'' ''/home/u/.claude/skills''"
    by (simp add: securityCheck_def resolve_base resolve_evil startsWith_def)
  have d: "installAgent (sampleOutside ''../skills-evil'' []) ''/srv'' ''/home/u''
       (sampleData ''../skills-evil'') ''claude'' world0 =
     (Inr (Installed (CHECK_MARK @ '' **claude**: `/home/u/.claude/skills-evil/SKILL.md`'')),
      \<lparr>effects = [FsMkdir ''/home/u/.claude/skills-evil'',
                  FsWriteFile ''/home/u/.claude/skills-evil/SKILL.md'' ''# skill''],
       outside = 1000\<rparr>)"
    by (simp add: installAgent_def a sampleData_def join_evil join_evil_file c
          tryCatch_def bindIO_def perform_def returnIO_def sampleOutside_def world0_def)
  from a b d show ?thesis by simp
qed

lemma sublist_here: "sublist xs (xs @ zs)"
  by (rule sublist_append_rightI)

lemma sublist_skip: "sublist xs zs \<Longrightarrow> sublist xs (ys @ zs)"
  by (metis sublist_append sublist_order.order_refl sublist_order.order_trans sublist_append_leftI)

lemma previewText_one_liners:
  "sublist (one_liners_unix data) (previewText detected data installPaths) \<and>
   sublist (one_liners_windows data) (previewText detected data installPaths)"
  unfolding previewText_def
  by (simp only: sublist_here sublist_skip simp_thms)

lemma previewLines_known:
  "set targets \<subseteq> set AGENT_KINDS \<Longrightarrow>
   \<exists>lines. previewLines detected homeDir given slug targets = Inr lines"
proof (induction targets)
  case Nil
  then show ?case by simp
next
  case (Cons agent rest)
  then obtain lines where l: "previewLines detected homeDir given slug rest = Inr lines" by auto
  from Cons.prems have "agent \<in> set AGENT_KINDS" by simp
  then obtain baseDir where "ALLOWED_INSTALL_DIRS homeDir agent = Some baseDir"
    using ALLOWED_INSTALL_DIRS_total by blast
  with l show ?case by (simp add: previewLine_def Let_def)
qed

lemma InstallSkillSchema_confirm_default:
  assumes "InstallSkillSchema (Some (JObj kvs)) = Inr a" and "map_of kvs ''confirm'' = None"
  shows "\<not> confirm a"
proof -
  from assms(1) obtain g c where
    g: "field (zDefault False zBoolean) kvs ''confirm'' = Inr c" and a: "a = g c"
    and 1: "zAp (zAp (Inr (\<lambda>i a c. \<lparr>install_args.skill_id = i, agents = a, confirm = c\<rparr>))
            (field zString kvs ''skill_id''))
            (field (zOptional (zArray (zEnum [''claude'', ''codex'', ''gemini'', ''opencode''])))
               kvs ''agents'') = Inr g"
    by (auto simp: InstallSkillSchema_def dest: zAp_Inr)
  from 1 obtain i ag where "g = (\<lambda>c. \<lparr>install_args.skill_id = i, agents = ag, confirm = c\<rparr>)"
    by (auto dest!: zAp_Inr)
  moreover from g assms(2) have "c = False"
    by (simp add: field_def under_def zDefault_def)
  ultimately show ?thesis using a by simp
qed

text \<open>
  C3. An absent \<^verbatim>\<open>confirm\<close> key parses to false. With the flag false, \<^const>\<open>installSkill\<close>
  leaves the log of mutating calls as it found it (no directory is created, no file is
  written); a text it returns contains both the Unix and the Windows one-liner of the data
  the catalog client supplied; and it does return a text whenever the client answers and
  the target agents are agent kinds.
\<close>

theorem installSkill_preview_writes_nothing:
  "(InstallSkillSchema (Some (JObj kvs)) = Inr a \<and> map_of kvs ''confirm'' = None \<longrightarrow> \<not> confirm a) \<and>
   (\<not> confirm a \<longrightarrow>
      effects (snd (installSkill E detected cwd homeDir a w)) = effects w \<and>
      (\<forall>preview. fst (installSkill E detected cwd homeDir a w) = Inr preview \<longrightarrow>
         (\<exists>data x'. getInstallInfo E (install_args.skill_id a) (targetAgentsOf detected a) (outside w)
                       = (Inr data, x') \<and>
            sublist (one_liners_unix data) preview \<and> sublist (one_liners_windows data) preview)) \<and>
      (\<forall>data x'. getInstallInfo E (install_args.skill_id a) (targetAgentsOf detected a) (outside w)
                    = (Inr data, x') \<and> set (targetAgentsOf detected a) \<subseteq> set AGENT_KINDS \<longrightarrow>
         (\<exists>preview. fst (installSkill E detected cwd homeDir a w) = Inr preview)))"
proof (intro conjI impI allI)
  assume "InstallSkillSchema (Some (JObj kvs)) = Inr a \<and> map_of kvs ''confirm'' = None"
  then show "\<not> confirm a" using InstallSkillSchema_confirm_default by blast
next
  assume "\<not> confirm a"
  then show "effects (snd (installSkill E detected cwd homeDir a w)) = effects w"
    by (auto simp: installSkill_def Let_def bindIO_def ask_def throwIO_def returnIO_def
          split: prod.splits sum.splits)
next
  fix preview
  assume "\<not> confirm a" and "fst (installSkill E detected cwd homeDir a w) = Inr preview"
  then show "\<exists>data x'. getInstallInfo E (install_args.skill_id a) (targetAgentsOf detected a) (outside w)
                       = (Inr data, x') \<and>
            sublist (one_liners_unix data) preview \<and> sublist (one_liners_windows data) preview"
    by (auto simp: installSkill_def Let_def bindIO_def ask_def throwIO_def returnIO_def
          previewText_one_liners split: prod.splits sum.splits)
next
  fix data x'
  assume nc: "\<not> confirm a"
    and h: "getInstallInfo E (install_args.skill_id a) (targetAgentsOf detected a) (outside w)
                    = (Inr data, x') \<and> set (targetAgentsOf detected a) \<subseteq> set AGENT_KINDS"
  then obtain lines where
    "previewLines detected homeDir (agents a \<noteq> None) (skill_slug data) (targetAgentsOf detected a) = Inr lines"
    using previewLines_known by blast
  with nc h show "\<exists>preview. fst (installSkill E detected cwd homeDir a w) = Inr preview"
    by (simp add: installSkill_def Let_def bindIO_def ask_def returnIO_def)
qed

theorem installSkill_preview_writes_nothing_witness:
  "\<not> confirm \<lparr>install_args.skill_id = ''pdf'', agents = None, confirm = False\<rparr> \<and>
   effects (snd (installSkill (sampleOutside ''pdf'' []) ''codex'' ''/srv'' ''/home/u''
      \<lparr>install_args.skill_id = ''pdf'', agents = None, confirm = False\<rparr> world0)) = effects world0 \<and>
   (\<exists>preview. fst (installSkill (sampleOutside ''pdf'' []) ''codex'' ''/srv'' ''/home/u''
      \<lparr>install_args.skill_id = ''pdf'', agents = None, confirm = False\<rparr> world0) = Inr preview \<and>
      sublist ''curl -fsSL u | bash'' preview \<and> sublist ''irm w | iex'' preview)"
proof -
  let ?a = "\<lparr>install_args.skill_id = ''pdf'', agents = None, confirm = False\<rparr>"
  let ?E = "sampleOutside ''pdf'' []"
  have nc: "\<not> confirm ?a" by simp
  have g: "getInstallInfo ?E (install_args.skill_id ?a) (targetAgentsOf ''codex'' ?a) (outside world0)
             = (Inr (sampleData ''pdf''), 1000) \<and>
           set (targetAgentsOf ''codex'' ?a) \<subseteq> set AGENT_KINDS"
    by (simp add: sampleOutside_def world0_def targetAgentsOf_def AGENT_KINDS_def)
  note t = installSkill_preview_writes_nothing [of "[]" ?a ?E "''codex''" "''/srv''" "''/home/u''" world0]
  from t nc have e: "effects (snd (installSkill ?E ''codex'' ''/srv'' ''/home/u'' ?a world0)) = effects world0"
    by blast
  from t nc g obtain preview where preview: "fst (installSkill ?E ''codex'' ''/srv'' ''/home/u'' ?a world0) = Inr preview"
    by blast
  with t nc obtain data x' where
    d: "getInstallInfo ?E (install_args.skill_id ?a) (targetAgentsOf ''codex'' ?a) (outside world0) = (Inr data, x')"
    and s: "sublist (one_liners_unix data) preview" "sublist (one_liners_windows data) preview"
    by blast
  from d g have "data = sampleData ''pdf''" by simp
  with s have "sublist ''curl -fsSL u | bash'' preview \<and> sublist ''irm w | iex'' preview"
    by (simp add: sampleData_def)
  with nc e preview show ?thesis by blast
qed

lemma installAgent_line:
  assumes "installAgent E cwd homeDir data agent w = (Inr r, w')"
  shows "(\<forall>line. r = Failed line \<longrightarrow>
            line = ''Unknown agent: '' @ agent \<or>
            line = ''Security error: Invalid path for '' @ agent \<or>
            (\<exists>err. line = CROSS_MARK @ '' **'' @ agent @ ''**: '' @ errorMessage err)) \<and>
         (\<forall>line. r = Installed line \<longrightarrow>
            (\<exists>baseDir. ALLOWED_INSTALL_DIRS homeDir agent = Some baseDir \<and>
               line = CHECK_MARK @ '' **'' @ agent @ ''**: `'' @
                      path_join [path_join [baseDir, skill_slug data], ''SKILL.md''] @ ''`''))"
  using assms
  by (auto simp: installAgent_def Let_def returnIO_def tryCatch_def bindIO_def perform_def
           split: option.splits sum.splits prod.splits if_splits)

lemma runAgents_split:
  assumes "runAgents E cwd homeDir data (before @ agent # after) w = (Inr outs, w')"
  shows "\<exists>outs1 w1 r w2 outs2.
           runAgents E cwd homeDir data before w = (Inr outs1, w1) \<and> length outs1 = length before \<and>
           installAgent E cwd homeDir data agent w1 = (Inr r, w2) \<and>
           runAgents E cwd homeDir data after w2 = (Inr outs2, w') \<and>
           outs = outs1 @ r # outs2"
proof -
  obtain outs1 w1 where 1: "runAgents E cwd homeDir data before w = (Inr outs1, w1)"
    "length outs1 = length before"
    using runAgents_returns by blast
  obtain r w2 where 2: "installAgent E cwd homeDir data agent w1 = (Inr r, w2)"
    using installAgent_returns by blast
  obtain outs2 w3 where 3: "runAgents E cwd homeDir data after w2 = (Inr outs2, w3)"
    using runAgents_returns by blast
  from 2 3 have "runAgents E cwd homeDir data (agent # after) w1 = (Inr (r # outs2), w3)"
    by (simp add: runAgents_Cons del: runAgents.simps)
  from runAgents_append [OF 1(1) this] assms have "outs = outs1 @ r # outs2" "w' = w3"
    by simp_all
  with 1 2 3 show ?thesis by blast
qed

lemma renderReport_sections:
  "(installed \<noteq> [] \<longrightarrow>
      sublist (''## Successfully Installed\<newline>'' @ joinWith ''\<newline>'' installed)
        (renderReport data installed errors)) \<and>
   (errors \<noteq> [] \<longrightarrow>
      sublist (''## Errors\<newline>'' @ joinWith ''\<newline>'' errors) (renderReport data installed errors))"
proof (intro conjI impI)
  assume "installed \<noteq> []"
  then have "renderReport data installed errors =
     (''# '' @ CHECK_MARK @ '' Installed: '' @ skill_name data @ ''\<newline>\<newline>'') @
     (''## Successfully Installed\<newline>'' @ joinWith ''\<newline>'' installed) @
     (''\<newline>\<newline>'' @
      ''> **Note:** Restart your AI agent or start a new conversation to load the skill.\<newline>\<newline>'' @
      (if errors \<noteq> []
       then ''## Errors\<newline>'' @ joinWith ''\<newline>'' errors @ ''\<newline>\<newline>''
       else []) @
      ''## Skill Info\<newline>'' @
      ''- **Repository:** '' @ skill_repo_url data @ ''\<newline>'' @
      ''- **Slug:** '' @ skill_slug data)"
    by (simp add: renderReport_def)
  then show "sublist (''## Successfully Installed\<newline>'' @ joinWith ''\<newline>'' installed)
        (renderReport data installed errors)"
    by (simp only: sublist_appendI)
next
  assume "errors \<noteq> []"
  then have "renderReport data installed errors =
     (''# '' @ CHECK_MARK @ '' Installed: '' @ skill_name data @ ''\<newline>\<newline>'' @
      (if installed \<noteq> []
       then ''## Successfully Installed\<newline>'' @ joinWith ''\<newline>'' installed @ ''\<newline>\<newline>'' @
            ''> **Note:** Restart your AI agent or start a new conversation to load the skill.\<newline>\<newline>''
       else [])) @
     (''## Errors\<newline>'' @ joinWith ''\<newline>'' errors) @
     (''\<newline>\<newline>'' @
      ''## Skill Info\<newline>'' @
      ''- **Repository:** '' @ skill_repo_url data @ ''\<newline>'' @
      ''- **Slug:** '' @ skill_slug data)"
    by (simp add: renderReport_def)
  then show "sublist (''## Errors\<newline>'' @ joinWith ''\<newline>'' errors) (renderReport data installed errors)"
    by (simp only: sublist_appendI)
qed

lemma installSkill_execute:
  assumes "confirm a"
    and "getInstallInfo E (install_args.skill_id a) (targetAgentsOf detected a) (outside w) = (Inr data, x')"
    and "runAgents E cwd homeDir data (targetAgentsOf detected a) (w\<lparr>outside := x'\<rparr>) = (Inr outs, w')"
  shows "installSkill E detected cwd homeDir a w =
           (Inr (renderReport data (successLines outs) (failureLines outs)), w')"
proof -
  from executeLoop_runAgents [OF assms(3), of "[]" "[]"]
  have "executeLoop E cwd homeDir data (targetAgentsOf detected a) [] [] (w\<lparr>outside := x'\<rparr>) =
      (Inr (successLines outs, failureLines outs), w')" by simp
  with assms(1,2) show ?thesis
    by (simp add: installSkill_def Let_def bindIO_def ask_def returnIO_def)
qed

lemma sample_run:
  "runAgents (sampleOutside ''pdf'' [''/home/u/.claude/skills/pdf'']) ''/srv'' ''/home/u''
      (sampleData ''pdf'') [''claude'', ''codex''] world0 =
     (Inr [Failed (CROSS_MARK @ '' **claude**: EACCES: permission denied''),
           Installed (CHECK_MARK @ '' **codex**: `/home/u/.codex/skills/pdf/SKILL.md`'')],
      \<lparr>effects = [FsMkdir ''/home/u/.claude/skills/pdf'', FsMkdir ''/home/u/.codex/skills/pdf'',
                  FsWriteFile ''/home/u/.codex/skills/pdf/SKILL.md'' ''# skill''],
       outside = 1000\<rparr>)"
  by (simp add: installAgent_def ALLOWED_INSTALL_DIRS_def sampleData_def path_defs
        securityCheck_def startsWith_def
        tryCatch_def bindIO_def perform_def returnIO_def sampleOutside_def world0_def)

lemma successLines_subseq: "subseq (successLines outs) (map outcomeLine outs)"
  by (induction outs rule: successLines.induct) auto

lemma failureLines_subseq: "subseq (failureLines outs) (map outcomeLine outs)"
  by (induction outs rule: failureLines.induct) auto

lemma no_failures: "failureLines outs = [] \<Longrightarrow> successLines outs = map outcomeLine outs"
  by (induction outs rule: failureLines.induct) auto

lemma no_successes: "successLines outs = [] \<Longrightarrow> failureLines outs = map outcomeLine outs"
  by (induction outs rule: successLines.induct) auto

text \<open>
  The loop is best-effort and independent per agent. For every list of target agents it
  returns (it has no throwing run); every agent gets exactly one outcome; each agent's
  body runs in the world its predecessors left, whatever their outcomes were; the loop's
  two arrays are the successes and the failures of that run, the report prints each
  non-empty array in its own section, and \<^const>\<open>installSkill\<close> returns that report as an
  ordinary result whenever the catalog client answered.
\<close>

lemma executeLoop_best_effort:
  "\<exists>outs w'.
     runAgents E cwd homeDir data targets w = (Inr outs, w') \<and> length outs = length targets \<and>
     executeLoop E cwd homeDir data targets [] [] w =
       (Inr (successLines outs, failureLines outs), w') \<and>
     (\<forall>before agent after. targets = before @ agent # after \<longrightarrow>
        (\<exists>outs1 w1 w2.
           runAgents E cwd homeDir data before w = (Inr outs1, w1) \<and>
           installAgent E cwd homeDir data agent w1 = (Inr (outs ! length before), w2) \<and>
           (\<forall>line. outs ! length before = Failed line \<longrightarrow>
              line = ''Unknown agent: '' @ agent \<or>
              line = ''Security error: Invalid path for '' @ agent \<or>
              (\<exists>err. line = CROSS_MARK @ '' **'' @ agent @ ''**: '' @ errorMessage err)) \<and>
           (\<forall>line. outs ! length before = Installed line \<longrightarrow>
              (\<exists>baseDir. ALLOWED_INSTALL_DIRS homeDir agent = Some baseDir \<and>
                 line = CHECK_MARK @ '' **'' @ agent @ ''**: `'' @
                        path_join [path_join [baseDir, skill_slug data], ''SKILL.md''] @ ''`'')))) \<and>
     (successLines outs \<noteq> [] \<longrightarrow>
        sublist (''## Successfully Installed\<newline>'' @ joinWith ''\<newline>'' (successLines outs))
          (renderReport data (successLines outs) (failureLines outs))) \<and>
     (failureLines outs \<noteq> [] \<longrightarrow>
        sublist (''## Errors\<newline>'' @ joinWith ''\<newline>'' (failureLines outs))
          (renderReport data (successLines outs) (failureLines outs))) \<and>
     (\<forall>a detected w0 x'.
        confirm a \<and> targets = targetAgentsOf detected a \<and> w = w0\<lparr>outside := x'\<rparr> \<and>
        getInstallInfo E (install_args.skill_id a) targets (outside w0) = (Inr data, x') \<longrightarrow>
        installSkill E detected cwd homeDir a w0 =
          (Inr (renderReport data (successLines outs) (failureLines outs)), w'))"
proof -
  obtain outs w' where run: "runAgents E cwd homeDir data targets w = (Inr outs, w')"
    and len: "length outs = length targets"
    using runAgents_returns by blast
  from executeLoop_runAgents [OF run, of "[]" "[]"]
  have loop: "executeLoop E cwd homeDir data targets [] [] w =
       (Inr (successLines outs, failureLines outs), w')" by simp
  have each: "\<exists>outs1 w1 w2.
           runAgents E cwd homeDir data before w = (Inr outs1, w1) \<and>
           installAgent E cwd homeDir data agent w1 = (Inr (outs ! length before), w2) \<and>
           (\<forall>line. outs ! length before = Failed line \<longrightarrow>
              line = ''Unknown agent: '' @ agent \<or>
              line = ''Security error: Invalid path for '' @ agent \<or>
              (\<exists>err. line = CROSS_MARK @ '' **'' @ agent @ ''**: '' @ errorMessage err)) \<and>
           (\<forall>line. outs ! length before = Installed line \<longrightarrow>
              (\<exists>baseDir. ALLOWED_INSTALL_DIRS homeDir agent = Some baseDir \<and>
                 line = CHECK_MARK @ '' **'' @ agent @ ''**: `'' @
                        path_join [path_join [baseDir, skill_slug data], ''SKILL.md''] @ ''`''))"
    if split: "targets = before @ agent # after" for before agent after
  proof -
    from run split obtain outs1 w1 r w2 outs2 where
      1: "runAgents E cwd homeDir data before w = (Inr outs1, w1)" "length outs1 = length before"
      and 2: "installAgent E cwd homeDir data agent w1 = (Inr r, w2)"
      and 3: "outs = outs1 @ r # outs2"
      using runAgents_split [of E cwd homeDir data before agent after w outs w'] by auto
    from 1(2) 3 have r: "outs ! length before = r" by (simp add: nth_append)
    from installAgent_line [OF 2] 1 2 r show ?thesis by blast
  qed
  have whole: "installSkill E detected cwd homeDir a w0 =
          (Inr (renderReport data (successLines outs) (failureLines outs)), w')"
    if h: "confirm a \<and> targets = targetAgentsOf detected a \<and> w = w0\<lparr>outside := x'\<rparr> \<and>
        getInstallInfo E (install_args.skill_id a) targets (outside w0) = (Inr data, x')"
    for a detected w0 x'
  proof -
    from h have c: "confirm a" and t: "targetAgentsOf detected a = targets"
      and w: "w0\<lparr>outside := x'\<rparr> = w" by simp_all
    from h t have g: "getInstallInfo E (install_args.skill_id a) (targetAgentsOf detected a)
        (outside w0) = (Inr data, x')" by simp
    from run t w have r: "runAgents E cwd homeDir data (targetAgentsOf detected a)
        (w0\<lparr>outside := x'\<rparr>) = (Inr outs, w')" by simp
    show ?thesis by (rule installSkill_execute [OF c g r])
  qed
  from run len loop each whole
    renderReport_sections [of "successLines outs" data "failureLines outs"]
  show ?thesis by blast
qed

text \<open>
  The outcome of the loop body, case by case. An agent without an install directory and a
  directory whose resolved string does not start with the resolved base are failures that
  touch nothing; an error thrown by \<^verbatim>\<open>mkdir\<close> or by \<^verbatim>\<open>writeFile\<close> is caught and becomes the
  agent's failure, with that error's message; otherwise the agent's file is written and
  its path reported. In every case the body returns, so the loop goes on.
\<close>

lemma installAgent_unknown:
  assumes "ALLOWED_INSTALL_DIRS homeDir agent = None"
  shows "installAgent E cwd homeDir data agent w = (Inr (Failed (''Unknown agent: '' @ agent)), w)"
  using assms by (simp add: installAgent_def returnIO_def)

lemma installAgent_mkdir_error:
  assumes "ALLOWED_INSTALL_DIRS homeDir agent = Some baseDir" and "baseDir \<noteq> []"
    and "securityCheck cwd (path_join [baseDir, skill_slug data]) baseDir"
    and "fs_mkdir E (path_join [baseDir, skill_slug data]) (outside w) = (Inl err, x')"
  shows "installAgent E cwd homeDir data agent w =
           (Inr (Failed (CROSS_MARK @ '' **'' @ agent @ ''**: '' @ errorMessage err)),
            w\<lparr>effects := effects w @ [FsMkdir (path_join [baseDir, skill_slug data])],
              outside := x'\<rparr>)"
  using assms
  by (simp add: installAgent_def Let_def returnIO_def tryCatch_def bindIO_def perform_def)

lemma installAgent_writeFile_error:
  assumes "ALLOWED_INSTALL_DIRS homeDir agent = Some baseDir" and "baseDir \<noteq> []"
    and "securityCheck cwd (path_join [baseDir, skill_slug data]) baseDir"
    and "fs_mkdir E (path_join [baseDir, skill_slug data]) (outside w) = (Inr (), x')"
    and "fs_writeFile E (path_join [path_join [baseDir, skill_slug data], ''SKILL.md''])
           (install_content data) x' = (Inl err, x'')"
  shows "installAgent E cwd homeDir data agent w =
           (Inr (Failed (CROSS_MARK @ '' **'' @ agent @ ''**: '' @ errorMessage err)),
            w\<lparr>effects := effects w @
                 [FsMkdir (path_join [baseDir, skill_slug data]),
                  FsWriteFile (path_join [path_join [baseDir, skill_slug data], ''SKILL.md''])
                    (install_content data)],
              outside := x''\<rparr>)"
  using assms
  by (simp add: installAgent_def Let_def returnIO_def tryCatch_def bindIO_def perform_def)

lemma installAgent_written:
  assumes "ALLOWED_INSTALL_DIRS homeDir agent = Some baseDir" and "baseDir \<noteq> []"
    and "securityCheck cwd (path_join [baseDir, skill_slug data]) baseDir"
    and "fs_mkdir E (path_join [baseDir, skill_slug data]) (outside w) = (Inr (), x')"
    and "fs_writeFile E (path_join [path_join [baseDir, skill_slug data], ''SKILL.md''])
           (install_content data) x' = (Inr (), x'')"
  shows "installAgent E cwd homeDir data agent w =
           (Inr (Installed (CHECK_MARK @ '' **'' @ agent @ ''**: `'' @
                   path_join [path_join [baseDir, skill_slug data], ''SKILL.md''] @ ''`'')),
            w\<lparr>effects := effects w @
                 [FsMkdir (path_join [baseDir, skill_slug data]),
                  FsWriteFile (path_join [path_join [baseDir, skill_slug data], ''SKILL.md''])
                    (install_content data)],
              outside := x''\<rparr>)"
  using assms
  by (simp add: installAgent_def Let_def returnIO_def tryCatch_def bindIO_def perform_def)

text \<open>
  C4. A path escape is not always recorded as the agent's failure. With the agents claude
  and codex requested and the slug \<^verbatim>\<open>../skills-evil\<close>, both computed directories resolve
  outside their agent's install root, yet the loop records no failure at all: it creates
  both directories, writes both files, and the report of \<^verbatim>\<open>installSkill\<close> lists both agents
  as successfully installed and has no errors.
\<close>

theorem path_escapes_are_reported_as_successes:
  "ALLOWED_INSTALL_DIRS ''/home/u'' ''claude'' = Some ''/home/u/.claude/skills'' \<and>
   ALLOWED_INSTALL_DIRS ''/home/u'' ''codex'' = Some ''/home/u/.codex/skills'' \<and>
   \<not> properComponentPrefix (path_resolve ''/srv'' [''/home/u/.claude/skills''])
        (path_resolve ''/srv'' [path_join [''/home/u/.claude/skills'', ''../skills-evil'']]) \<and>
   \<not> properComponentPrefix (path_resolve ''/srv'' [''/home/u/.codex/skills''])
        (path_resolve ''/srv'' [path_join [''/home/u/.codex/skills'', ''../skills-evil'']]) \<and>
   executeLoop (sampleOutside ''../skills-evil'' []) ''/srv'' ''/home/u''
       (sampleData ''../skills-evil'') [''claude'', ''codex''] [] [] world0 =
     (Inr ([CHECK_MARK @ '' **claude**: `/home/u/.claude/skills-evil/SKILL.md`'',
            CHECK_MARK @ '' **codex**: `/home/u/.codex/skills-evil/SKILL.md`''], []),
      \<lparr>effects = [FsMkdir ''/home/u/.claude/skills-evil'',
                  FsWriteFile ''/home/u/.claude/skills-evil/SKILL.md'' ''# skill'',
                  FsMkdir ''/home/u/.codex/skills-evil'',
                  FsWriteFile ''/home/u/.codex/skills-evil/SKILL.md'' ''# skill''],
       outside = 1000\<rparr>) \<and>
   installSkill (sampleOutside ''../skills-evil'' []) ''claude'' ''/srv'' ''/home/u''
       \<lparr>skill_id = ''evil'', agents = Some [''claude'', ''codex''], confirm = True\<rparr> world0 =
     (Inr (renderReport (sampleData ''../skills-evil'')
             [CHECK_MARK @ '' **claude**: `/home/u/.claude/skills-evil/SKILL.md`'',
              CHECK_MARK @ '' **codex**: `/home/u/.codex/skills-evil/SKILL.md`''] []),
      \<lparr>effects = [FsMkdir ''/home/u/.claude/skills-evil'',
                  FsWriteFile ''/home/u/.claude/skills-evil/SKILL.md'' ''# skill'',
                  FsMkdir ''/home/u/.codex/skills-evil'',
                  FsWriteFile ''/home/u/.codex/skills-evil/SKILL.md'' ''# skill''],
       outside = 1000\<rparr>)"
proof -
  let ?E = "sampleOutside ''../skills-evil'' []"
  let ?d = "sampleData ''../skills-evil''"
  have a1: "ALLOWED_INSTALL_DIRS ''/home/u'' ''claude'' = Some ''/home/u/.claude/skills''"
    by (simp add: ALLOWED_INSTALL_DIRS_def path_defs)
  have a2: "ALLOWED_INSTALL_DIRS ''/home/u'' ''codex'' = Some ''/home/u/.codex/skills''"
    by (simp add: ALLOWED_INSTALL_DIRS_def path_defs)
  have b1: "\<not> properComponentPrefix (path_resolve ''/srv'' [''/home/u/.claude/skills''])
        (path_resolve ''/srv'' [path_join [''/home/u/.claude/skills'', ''../skills-evil'']])"
    by (simp add: path_defs properComponentPrefix_def pathComponents_def)
  have b2: "\<not> properComponentPrefix (path_resolve ''/srv'' [''/home/u/.codex/skills''])
        (path_resolve ''/srv'' [path_join [''/home/u/.codex/skills'', ''../skills-evil'']])"
    by (simp add: path_defs properComponentPrefix_def pathComponents_def)
  have run: "runAgents ?E ''/srv'' ''/home/u'' ?d [''claude'', ''codex''] world0 =
     (Inr [Installed (CHECK_MARK @ '' **claude**: `/home/u/.claude/skills-evil/SKILL.md`''),
           Installed (CHECK_MARK @ '' **codex**: `/home/u/.codex/skills-evil/SKILL.md`'')],
      \<lparr>effects = [FsMkdir ''/home/u/.claude/skills-evil'',
                  FsWriteFile ''/home/u/.claude/skills-evil/SKILL.md'' ''# skill'',
                  FsMkdir ''/home/u/.codex/skills-evil'',
                  FsWriteFile ''/home/u/.codex/skills-evil/SKILL.md'' ''# skill''],
       outside = 1000\<rparr>)"
    by (simp add: installAgent_def ALLOWED_INSTALL_DIRS_def sampleData_def path_defs
          securityCheck_def startsWith_def
          tryCatch_def bindIO_def perform_def returnIO_def sampleOutside_def world0_def)
  from executeLoop_runAgents [OF run, of "[]" "[]"]
  have c: "executeLoop ?E ''/srv'' ''/home/u'' ?d [''claude'', ''codex''] [] [] world0 =
     (Inr ([CHECK_MARK @ '' **claude**: `/home/u/.claude/skills-evil/SKILL.md`'',
            CHECK_MARK @ '' **codex**: `/home/u/.codex/skills-evil/SKILL.md`''], []),
      \<lparr>effects = [FsMkdir ''/home/u/.claude/skills-evil'',
                  FsWriteFile ''/home/u/.claude/skills-evil/SKILL.md'' ''# skill'',
                  FsMkdir ''/home/u/.codex/skills-evil'',
                  FsWriteFile ''/home/u/.codex/skills-evil/SKILL.md'' ''# skill''],
       outside = 1000\<rparr>)"
    by simp
  let ?a = "\<lparr>skill_id = ''evil'', agents = Some [''claude'', ''codex''], confirm = True\<rparr>"
  have t: "targetAgentsOf ''claude'' ?a = [''claude'', ''codex'']"
    by (simp add: targetAgentsOf_def)
  have g: "getInstallInfo ?E (install_args.skill_id ?a) (targetAgentsOf ''claude'' ?a) (outside world0)
      = (Inr ?d, 1000)"
    by (simp add: sampleOutside_def world0_def)
  have w: "world0\<lparr>outside := 1000\<rparr> = world0" by (simp add: world0_def)
  from run have run': "runAgents ?E ''/srv'' ''/home/u'' ?d (targetAgentsOf ''claude'' ?a)
      (world0\<lparr>outside := 1000\<rparr>) =
     (Inr [Installed (CHECK_MARK @ '' **claude**: `/home/u/.claude/skills-evil/SKILL.md`''),
           Installed (CHECK_MARK @ '' **codex**: `/home/u/.codex/skills-evil/SKILL.md`'')],
      \<lparr>effects = [FsMkdir ''/home/u/.claude/skills-evil'',
                  FsWriteFile ''/home/u/.claude/skills-evil/SKILL.md'' ''# skill'',
                  FsMkdir ''/home/u/.codex/skills-evil'',
                  FsWriteFile ''/home/u/.codex/skills-evil/SKILL.md'' ''# skill''],
       outside = 1000\<rparr>)"
    by (simp only: t w)
  have c0: "confirm ?a" by simp
  from installSkill_execute [OF c0 g run']
  have d: "installSkill ?E ''claude'' ''/srv'' ''/home/u'' ?a world0 =
     (Inr (renderReport ?d
             [CHECK_MARK @ '' **claude**: `/home/u/.claude/skills-evil/SKILL.md`'',
              CHECK_MARK @ '' **codex**: `/home/u/.codex/skills-evil/SKILL.md`''] []),
      \<lparr>effects = [FsMkdir ''/home/u/.claude/skills-evil'',
                  FsWriteFile ''/home/u/.claude/skills-evil/SKILL.md'' ''# skill'',
                  FsMkdir ''/home/u/.codex/skills-evil'',
                  FsWriteFile ''/home/u/.codex/skills-evil/SKILL.md'' ''# skill''],
       outside = 1000\<rparr>)"
    by simp
  show ?thesis
    by (intro conjI, rule a1, rule a2, rule b1, rule b2, rule c, rule d)
qed

lemma splitLines_nonempty: "splitLines xs \<noteq> []"
  by (induction xs) (auto split: list.splits)

lemma splitLines_append:
  "splitLines (xs @ CHR 0x0A # ys) = splitLines xs @ splitLines ys"
proof (induction xs)
  case Nil
  then show ?case by simp
next
  case (Cons x xs)
  obtain s ss where s: "splitLines xs = s # ss"
    using splitLines_nonempty [of xs] by (cases "splitLines xs") auto
  with Cons show ?case by simp
qed

lemma splitLines_single: "CHR 0x0A \<notin> set xs \<Longrightarrow> splitLines xs = [xs]"
  by (induction xs) auto

lemma joinWith_Cons: "xs \<noteq> [] \<Longrightarrow> joinWith sep (x # xs) = x @ sep @ joinWith sep xs"
  by (cases xs) simp_all

lemma splitLines_joinWith:
  "ls \<noteq> [] \<Longrightarrow> \<forall>l \<in> set ls. CHR 0x0A \<notin> set l \<Longrightarrow> splitLines (joinWith ''\<newline>'' ls) = ls"
proof (induction ls rule: list_nonempty_induct)
  case (single x)
  then show ?case by (simp add: splitLines_single)
next
  case (cons x xs)
  then have "splitLines (joinWith ''\<newline>'' xs) = xs" by simp
  moreover from cons have "splitLines x = [x]" by (simp add: splitLines_single)
  ultimately show ?case using cons.hyps by (simp add: joinWith_Cons splitLines_append)
qed

lemma joinWith_append:
  "xs \<noteq> [] \<Longrightarrow> ys \<noteq> [] \<Longrightarrow> joinWith sep (xs @ ys) = joinWith sep xs @ sep @ joinWith sep ys"
proof (induction xs rule: list_nonempty_induct)
  case (single x)
  then show ?case by (simp add: joinWith_Cons)
next
  case (cons x xs)
  then show ?case by (simp add: joinWith_Cons)
qed

text \<open>The lines of a report, one by one.\<close>

lemma renderReport_lines:
  "renderReport data installed errors =
     joinWith ''\<newline>''
       ([''# '' @ CHECK_MARK @ '' Installed: '' @ skill_name data, []] @
        (if installed \<noteq> []
         then [''## Successfully Installed''] @ installed @
              [[], ''> **Note:** Restart your AI agent or start a new conversation to load the skill.'', []]
         else []) @
        (if errors \<noteq> [] then [''## Errors''] @ errors @ [[]] else []) @
        [''## Skill Info'', ''- **Repository:** '' @ skill_repo_url data,
         ''- **Slug:** '' @ skill_slug data])"
  by (simp add: renderReport_def joinWith_append joinWith_Cons)

lemma outcomeLinesOf_renderReport:
  assumes d: "CHR 0x0A \<notin> set (skill_name data)" "CHR 0x0A \<notin> set (skill_repo_url data)"
      "CHR 0x0A \<notin> set (skill_slug data)"
    and i: "\<forall>l \<in> set installed. CHR 0x0A \<notin> set l \<and> isOutcomeLine l"
    and e: "\<forall>l \<in> set errors. CHR 0x0A \<notin> set l \<and> isOutcomeLine l"
  shows "outcomeLinesOf (renderReport data installed errors) = installed @ errors"
proof -
  let ?ls = "[''# '' @ CHECK_MARK @ '' Installed: '' @ skill_name data, []] @
        (if installed \<noteq> []
         then [''## Successfully Installed''] @ installed @
              [[], ''> **Note:** Restart your AI agent or start a new conversation to load the skill.'', []]
         else []) @
        (if errors \<noteq> [] then [''## Errors''] @ errors @ [[]] else []) @
        [''## Skill Info'', ''- **Repository:** '' @ skill_repo_url data,
         ''- **Slug:** '' @ skill_slug data]"
  have ne: "?ls \<noteq> []" by simp
  have free: "\<forall>l \<in> set ?ls. CHR 0x0A \<notin> set l"
    using d i e by (auto simp: CHECK_MARK_def)
  have sp: "splitLines (renderReport data installed errors) = ?ls"
    unfolding renderReport_lines by (rule splitLines_joinWith [OF ne free])
  have fi: "filter isOutcomeLine installed = installed"
    using i by (simp add: filter_id_conv)
  have fe: "filter isOutcomeLine errors = errors"
    using e by (simp add: filter_id_conv)
  have filt: "filter isOutcomeLine ?ls = installed @ errors"
    using fi fe
    by (simp add: isOutcomeLine_def startsWith_def CHECK_MARK_def CROSS_MARK_def)
  show ?thesis
    by (simp only: outcomeLinesOf_def sp filt)
qed

lemma installAgent_outcomeLine:
  "installAgent E cwd homeDir data agent w = (Inr r, w') \<Longrightarrow> isOutcomeLine (outcomeLine r)"
  by (auto simp: installAgent_def Let_def returnIO_def tryCatch_def bindIO_def perform_def
        isOutcomeLine_def startsWith_def
        split: option.splits sum.splits prod.splits if_splits)

lemma runAgents_outcomeLines:
  "runAgents E cwd homeDir data targets w = (Inr outs, w') \<Longrightarrow>
   \<forall>r \<in> set outs. isOutcomeLine (outcomeLine r)"
proof (induction targets arbitrary: w outs w')
  case Nil
  then show ?case by (simp add: returnIO_def)
next
  case (Cons agent rest)
  obtain r wa where 1: "installAgent E cwd homeDir data agent w = (Inr r, wa)"
    using installAgent_returns by blast
  obtain rs wb where 2: "runAgents E cwd homeDir data rest wa = (Inr rs, wb)"
    using runAgents_returns by blast
  from Cons.prems 1 2 have eq: "outs = r # rs"
    by (simp add: runAgents_Cons del: runAgents.simps)
  with installAgent_outcomeLine [OF 1] Cons.IH [OF 2] show ?case by simp
qed

lemma successLines_set: "set (successLines outs) \<subseteq> outcomeLine ` set outs"
  by (induction outs rule: successLines.induct) auto

lemma sample_run_ok:
  "runAgents (sampleOutside ''pdf'' []) ''/srv'' ''/home/u''
      (sampleData ''pdf'') [''gemini'', ''codex''] world0 =
     (Inr [Installed (CHECK_MARK @ '' **gemini**: `/home/u/.gemini/skills/pdf/SKILL.md`''),
           Installed (CHECK_MARK @ '' **codex**: `/home/u/.codex/skills/pdf/SKILL.md`'')],
      \<lparr>effects = [FsMkdir ''/home/u/.gemini/skills/pdf'',
                  FsWriteFile ''/home/u/.gemini/skills/pdf/SKILL.md'' ''# skill'',
                  FsMkdir ''/home/u/.codex/skills/pdf'',
                  FsWriteFile ''/home/u/.codex/skills/pdf/SKILL.md'' ''# skill''],
       outside = 1000\<rparr>)"
  by (simp add: installAgent_def ALLOWED_INSTALL_DIRS_def sampleData_def path_defs
        securityCheck_def startsWith_def
        tryCatch_def bindIO_def perform_def returnIO_def sampleOutside_def world0_def)



text \<open>
  C9, amended. Read from the text of the rendered report, the successes come first and
  the failures after them; within each group the outcomes keep the order of the requested
  agent list. When a run has no failure, or no success, the reported order is the request
  order. (The lines are read back from the text, so no outcome line and none of the
  skill's name, repository and slug may contain a line break.)
\<close>

theorem report_lists_successes_then_failures:
  assumes d: "CHR 0x0A \<notin> set (skill_name data) \<union> set (skill_repo_url data) \<union> set (skill_slug data)"
    and l: "\<forall>line \<in> set (requestOrder E cwd homeDir data targets w). CHR 0x0A \<notin> set line"
  shows "\<exists>outs w'.
     runAgents E cwd homeDir data targets w = (Inr outs, w') \<and> length outs = length targets \<and>
     requestOrder E cwd homeDir data targets w = map outcomeLine outs \<and>
     executeLoop E cwd homeDir data targets [] [] w =
       (Inr (successLines outs, failureLines outs), w') \<and>
     reportOrder E cwd homeDir data targets w =
       outcomeLinesOf (renderReport data (successLines outs) (failureLines outs)) \<and>
     reportOrder E cwd homeDir data targets w = successLines outs @ failureLines outs \<and>
     subseq (successLines outs) (requestOrder E cwd homeDir data targets w) \<and>
     subseq (failureLines outs) (requestOrder E cwd homeDir data targets w) \<and>
     (successLines outs = [] \<or> failureLines outs = [] \<longrightarrow>
        reportOrder E cwd homeDir data targets w = requestOrder E cwd homeDir data targets w)"
proof -
  obtain outs w' where run: "runAgents E cwd homeDir data targets w = (Inr outs, w')"
    and len: "length outs = length targets"
    using runAgents_returns by blast
  from run have req: "requestOrder E cwd homeDir data targets w = map outcomeLine outs"
    by (simp add: requestOrder_def)
  note loop = executeLoop_runAgents [OF run, of "[]" "[]", simplified]
  from loop have rep0: "reportOrder E cwd homeDir data targets w =
      outcomeLinesOf (renderReport data (successLines outs) (failureLines outs))"
    by (simp add: reportOrder_def)
  have shape: "\<forall>r \<in> set outs. isOutcomeLine (outcomeLine r)"
    by (rule runAgents_outcomeLines [OF run])
  from l req have free: "\<forall>r \<in> set outs. CHR 0x0A \<notin> set (outcomeLine r)" by simp
  have i: "\<forall>l \<in> set (successLines outs). CHR 0x0A \<notin> set l \<and> isOutcomeLine l"
    using shape free successLines_set [of outs] by auto
  have e: "\<forall>l \<in> set (failureLines outs). CHR 0x0A \<notin> set l \<and> isOutcomeLine l"
    using shape free failureLines_subset [of outs] by auto
  from d have d1: "CHR 0x0A \<notin> set (skill_name data)" and d2: "CHR 0x0A \<notin> set (skill_repo_url data)"
    and d3: "CHR 0x0A \<notin> set (skill_slug data)" by simp_all
  have rep: "reportOrder E cwd homeDir data targets w = successLines outs @ failureLines outs"
    by (simp only: rep0 outcomeLinesOf_renderReport [OF d1 d2 d3 i e])
  have same: "successLines outs = [] \<or> failureLines outs = [] \<longrightarrow>
        reportOrder E cwd homeDir data targets w = requestOrder E cwd homeDir data targets w"
  proof
    assume "successLines outs = [] \<or> failureLines outs = []"
    then show "reportOrder E cwd homeDir data targets w = requestOrder E cwd homeDir data targets w"
    proof
      assume z: "successLines outs = []"
      from no_successes [OF z] z show ?thesis by (simp only: rep req append_Nil)
    next
      assume z: "failureLines outs = []"
      from no_failures [OF z] z show ?thesis by (simp only: rep req append_Nil2)
    qed
  qed
  have s1: "subseq (successLines outs) (requestOrder E cwd homeDir data targets w)"
    by (simp only: req successLines_subseq)
  have s2: "subseq (failureLines outs) (requestOrder E cwd homeDir data targets w)"
    by (simp only: req failureLines_subseq)
  show ?thesis
    by (rule exI [of _ outs], rule exI [of _ w'], intro conjI,
        rule run, rule len, rule req, rule loop, rule rep0, rule rep, rule s1, rule s2, rule same)
qed

lemma sample_report:
  "outcomeLinesOf (renderReport (sampleData ''pdf'')
      [CHECK_MARK @ '' **codex**: `/home/u/.codex/skills/pdf/SKILL.md`'']
      [CROSS_MARK @ '' **claude**: EACCES: permission denied'']) =
   [CHECK_MARK @ '' **codex**: `/home/u/.codex/skills/pdf/SKILL.md`'',
    CROSS_MARK @ '' **claude**: EACCES: permission denied'']"
proof -
  have "outcomeLinesOf (renderReport (sampleData ''pdf'')
      [CHECK_MARK @ '' **codex**: `/home/u/.codex/skills/pdf/SKILL.md`'']
      [CROSS_MARK @ '' **claude**: EACCES: permission denied'']) =
    [CHECK_MARK @ '' **codex**: `/home/u/.codex/skills/pdf/SKILL.md`''] @
    [CROSS_MARK @ '' **claude**: EACCES: permission denied'']"
    by (rule outcomeLinesOf_renderReport)
       (simp_all add: sampleData_def isOutcomeLine_def startsWith_def CHECK_MARK_def CROSS_MARK_def)
  then show ?thesis by simp
qed

text \<open>
  C9. The report does not keep the request order across successes and failures: with the
  agents claude and codex requested in this order, and \<^verbatim>\<open>mkdir\<close> refused for claude, the
  first outcome of the request is claude's failure but the first outcome line in the text
  of the rendered report is codex's success.
\<close>

theorem report_order_differs_from_request_order:
  "requestOrder (sampleOutside ''pdf'' [''/home/u/.claude/skills/pdf'']) ''/srv'' ''/home/u''
      (sampleData ''pdf'') [''claude'', ''codex''] world0 =
     [CROSS_MARK @ '' **claude**: EACCES: permission denied'',
      CHECK_MARK @ '' **codex**: `/home/u/.codex/skills/pdf/SKILL.md`''] \<and>
   reportOrder (sampleOutside ''pdf'' [''/home/u/.claude/skills/pdf'']) ''/srv'' ''/home/u''
      (sampleData ''pdf'') [''claude'', ''codex''] world0 =
     [CHECK_MARK @ '' **codex**: `/home/u/.codex/skills/pdf/SKILL.md`'',
      CROSS_MARK @ '' **claude**: EACCES: permission denied''] \<and>
   reportOrder (sampleOutside ''pdf'' [''/home/u/.claude/skills/pdf'']) ''/srv'' ''/home/u''
      (sampleData ''pdf'') [''claude'', ''codex''] world0 ! 0 \<noteq>
   requestOrder (sampleOutside ''pdf'' [''/home/u/.claude/skills/pdf'']) ''/srv'' ''/home/u''
      (sampleData ''pdf'') [''claude'', ''codex''] world0 ! 0"
proof -
  note run = sample_run
  note loop = executeLoop_runAgents [OF run, of "[]" "[]"]
  have req: "requestOrder (sampleOutside ''pdf'' [''/home/u/.claude/skills/pdf'']) ''/srv'' ''/home/u''
      (sampleData ''pdf'') [''claude'', ''codex''] world0 =
     [CROSS_MARK @ '' **claude**: EACCES: permission denied'',
      CHECK_MARK @ '' **codex**: `/home/u/.codex/skills/pdf/SKILL.md`'']"
    by (simp add: requestOrder_def run del: runAgents.simps)
  have "reportOrder (sampleOutside ''pdf'' [''/home/u/.claude/skills/pdf'']) ''/srv'' ''/home/u''
      (sampleData ''pdf'') [''claude'', ''codex''] world0 =
     outcomeLinesOf (renderReport (sampleData ''pdf'')
      [CHECK_MARK @ '' **codex**: `/home/u/.codex/skills/pdf/SKILL.md`'']
      [CROSS_MARK @ '' **claude**: EACCES: permission denied''])"
    by (simp add: reportOrder_def loop del: executeLoop.simps)
  then have rep: "reportOrder (sampleOutside ''pdf'' [''/home/u/.claude/skills/pdf'']) ''/srv'' ''/home/u''
      (sampleData ''pdf'') [''claude'', ''codex''] world0 =
     [CHECK_MARK @ '' **codex**: `/home/u/.codex/skills/pdf/SKILL.md`'',
      CROSS_MARK @ '' **claude**: EACCES: permission denied'']"
    by (simp only: sample_report)
  have "CHECK_MARK @ '' **codex**: `/home/u/.codex/skills/pdf/SKILL.md`'' \<noteq>
        CROSS_MARK @ '' **claude**: EACCES: permission denied''"
    by (simp add: CHECK_MARK_def CROSS_MARK_def)
  with req rep show ?thesis by simp
qed

theorem report_lists_successes_then_failures_witness:
  "reportOrder (sampleOutside ''pdf'' []) ''/srv'' ''/home/u''
      (sampleData ''pdf'') [''gemini'', ''codex''] world0 =
   requestOrder (sampleOutside ''pdf'' []) ''/srv'' ''/home/u''
      (sampleData ''pdf'') [''gemini'', ''codex''] world0 \<and>
   requestOrder (sampleOutside ''pdf'' []) ''/srv'' ''/home/u''
      (sampleData ''pdf'') [''gemini'', ''codex''] world0 =
     [CHECK_MARK @ '' **gemini**: `/home/u/.gemini/skills/pdf/SKILL.md`'',
      CHECK_MARK @ '' **codex**: `/home/u/.codex/skills/pdf/SKILL.md`'']"
proof -
  let ?E = "sampleOutside ''pdf'' []"
  let ?d = "sampleData ''pdf''"
  have req0: "requestOrder ?E ''/srv'' ''/home/u'' ?d [''gemini'', ''codex''] world0 =
       [CHECK_MARK @ '' **gemini**: `/home/u/.gemini/skills/pdf/SKILL.md`'',
        CHECK_MARK @ '' **codex**: `/home/u/.codex/skills/pdf/SKILL.md`'']"
    by (simp add: requestOrder_def sample_run_ok del: runAgents.simps)
  have d: "CHR 0x0A \<notin> set (skill_name ?d) \<union> set (skill_repo_url ?d) \<union> set (skill_slug ?d)"
    by (simp add: sampleData_def)
  have l: "\<forall>line \<in> set (requestOrder ?E ''/srv'' ''/home/u'' ?d [''gemini'', ''codex''] world0).
      CHR 0x0A \<notin> set line"
    by (simp add: req0 CHECK_MARK_def)
  from report_lists_successes_then_failures [OF d l]
  show ?thesis
  proof (elim exE conjE)
    fix outs w'
    assume run: "runAgents ?E ''/srv'' ''/home/u'' ?d [''gemini'', ''codex''] world0 = (Inr outs, w')"
    assume same: "successLines outs = [] \<or> failureLines outs = [] \<longrightarrow>
        reportOrder ?E ''/srv'' ''/home/u'' ?d [''gemini'', ''codex''] world0 =
        requestOrder ?E ''/srv'' ''/home/u'' ?d [''gemini'', ''codex''] world0"
    from run have outs: "outs =
       [Installed (CHECK_MARK @ '' **gemini**: `/home/u/.gemini/skills/pdf/SKILL.md`''),
        Installed (CHECK_MARK @ '' **codex**: `/home/u/.codex/skills/pdf/SKILL.md`'')]"
      by (simp only: sample_run_ok prod.inject sum.inject)
    then have "successLines outs = [] \<or> failureLines outs = []" by simp
    with same have eq: "reportOrder ?E ''/srv'' ''/home/u'' ?d [''gemini'', ''codex''] world0 =
        requestOrder ?E ''/srv'' ''/home/u'' ?d [''gemini'', ''codex''] world0" by (rule mp)
    from eq req0 show ?thesis by (intro conjI)
  qed
qed

section \<open>Properties of the tool dispatcher\<close>

lemma posts_append: "posts (xs @ ys) = posts xs @ posts ys"
  by (simp add: posts_def)

lemma posts_single:
  "posts [] = []" "posts (HttpPost ev # efs) = ev # posts efs"
  "posts (FsMkdir p # efs) = posts efs" "posts (FsWriteFile p c # efs) = posts efs"
  by (simp_all add: posts_def)

lemma now_effects:
  "\<exists>x'. now E w = (Inr (fst (Date_now E (outside w))), w\<lparr>outside := x'\<rparr>)"
  by (auto simp: now_def ask_def split: prod.splits)

lemma trackMCPCall_returns:
  "\<exists>ev x'. trackMCPCall E name rawArgs startTime ok err meta w =
             (Inr (), w\<lparr>effects := effects w @ [HttpPost ev], outside := x'\<rparr>) \<and>
           event_type ev = ''mcp.'' @ name \<and> event_tool ev = name \<and> event_success ev = ok \<and>
           event_error ev = err \<and> event_metadata ev = meta \<and>
           duration_ms ev = fst (Date_now E (outside w)) - startTime"
  by (auto simp: trackMCPCall_def now_def ask_def perform_def tryCatch_def bindIO_def
        returnIO_def Let_def split: prod.splits sum.splits)

lemma trackMCPCall_fetch:
  "fst (trackMCPCall (E\<lparr>fetch := f\<rparr>) name rawArgs startTime ok err meta w) =
     fst (trackMCPCall E name rawArgs startTime ok err meta w) \<and>
   effects (snd (trackMCPCall (E\<lparr>fetch := f\<rparr>) name rawArgs startTime ok err meta w)) =
     effects (snd (trackMCPCall E name rawArgs startTime ok err meta w))"
  by (auto simp: trackMCPCall_def now_def ask_def perform_def tryCatch_def bindIO_def
        returnIO_def Let_def split: prod.splits sum.splits)

lemma installAgent_posts:
  "installAgent E cwd homeDir data agent w = (r, w') \<Longrightarrow> posts (effects w') = posts (effects w)"
  by (auto simp: installAgent_def Let_def returnIO_def tryCatch_def bindIO_def perform_def
        posts_append posts_single
        split: option.splits sum.splits prod.splits if_splits)

lemma runAgents_posts:
  "runAgents E cwd homeDir data targets w = (r, w') \<Longrightarrow> posts (effects w') = posts (effects w)"
proof (induction targets arbitrary: w r w')
  case Nil
  then show ?case by (simp add: returnIO_def)
next
  case (Cons agent rest)
  obtain o1 wa where 1: "installAgent E cwd homeDir data agent w = (Inr o1, wa)"
    using installAgent_returns by blast
  obtain rs wb where 2: "runAgents E cwd homeDir data rest wa = (Inr rs, wb)"
    using runAgents_returns by blast
  from Cons.prems 1 2 have "w' = wb"
    by (simp add: runAgents_Cons del: runAgents.simps)
  with installAgent_posts [OF 1] Cons.IH [OF 2] show ?case by simp
qed

lemma installSkill_posts:
  "installSkill E detected cwd homeDir a w = (r, w') \<Longrightarrow> posts (effects w') = posts (effects w)"
proof (cases "getInstallInfo E (install_args.skill_id a) (targetAgentsOf detected a) (outside w)")
  case (Pair g x')
  assume run: "installSkill E detected cwd homeDir a w = (r, w')"
  show ?thesis
  proof (cases g)
    case (Inl e)
    with Pair run show ?thesis
      by (auto simp: installSkill_def Let_def bindIO_def ask_def)
  next
    case (Inr data)
    show ?thesis
    proof (cases "confirm a")
      case False
      with Pair Inr run show ?thesis
        by (auto simp: installSkill_def Let_def bindIO_def ask_def throwIO_def returnIO_def
              split: sum.splits)
    next
      case True
      obtain outs wb where 2: "runAgents E cwd homeDir data (targetAgentsOf detected a)
          (w\<lparr>outside := x'\<rparr>) = (Inr outs, wb)"
        using runAgents_returns by blast
      from Pair Inr have g: "getInstallInfo E (install_args.skill_id a) (targetAgentsOf detected a)
          (outside w) = (Inr data, x')" by simp
      from installSkill_execute [OF True g 2] run have "w' = wb" by simp
      with runAgents_posts [OF 2] show ?thesis by simp
    qed
  qed
qed

lemma ask_effects: "ask f w = (r, w') \<Longrightarrow> effects w' = effects w"
  by (auto simp: ask_def split: prod.splits)

lemma runTool_cases:
  "runTool E detected cwd homeDir name rawArgs startTime =
     (if name = ''search_skills'' then
        toolCase E SearchSkillsSchema (\<lambda>p. ask (searchSkills E p))
          (\<lambda>p. [(''query'', Some (search_args.query p))]) name rawArgs startTime
      else if name = ''get_skill_detail'' then
        toolCase E GetSkillDetailSchema (\<lambda>p. ask (getSkillDetail E p))
          (\<lambda>p. [(''skill_id'', Some (detail_args.skill_id p))]) name rawArgs startTime
      else if name = ''install_skill'' then
        toolCase E InstallSkillSchema (installSkill E detected cwd homeDir)
          (\<lambda>p. [(''skill_id'', Some (install_args.skill_id p))]) name rawArgs startTime
      else if name = ''browse_catalog'' then
        toolCase E BrowseCatalogSchema (\<lambda>p. ask (browseCatalog E p))
          (\<lambda>p. [(''category'', browse_args.category p), (''sort'', Some (browse_args.sort p))])
          name rawArgs startTime
      else if name = ''recommend_skills'' then
        toolCase E RecommendSkillsSchema (\<lambda>p. ask (recommendSkills E p))
          (\<lambda>p. [(''context'', Some (take 100 (recommend_args.context p)))]) name rawArgs startTime
      else throwIO (JsError (''Unknown tool: '' @ name)))"
  by (simp add: runTool_def toolCase_def)

text \<open>
  A case of the switch is its parse-and-handle part followed, on success, by one tracking
  call that starts in the world that part left.
\<close>

lemma toolCase_tracked:
  "(\<exists>e w1. bindIO (parse E schema rawArgs) handler w = (Inl e, w1) \<and>
       toolCase E schema handler meta name rawArgs startTime w = (Inl e, w1)) \<or>
   (\<exists>result w1 ev x'. bindIO (parse E schema rawArgs) handler w = (Inr result, w1) \<and>
       toolCase E schema handler meta name rawArgs startTime w =
         (Inr result, w1\<lparr>effects := effects w1 @ [HttpPost ev], outside := x'\<rparr>) \<and>
       event_type ev = ''mcp.'' @ name \<and> event_tool ev = name \<and> event_success ev \<and>
       event_error ev = None \<and>
       duration_ms ev = fst (Date_now E (outside w1)) - startTime)"
proof (cases "schema rawArgs")
  case (Inl issues)
  then show ?thesis
    by (simp add: toolCase_def parse_def bindIO_def throwIO_def)
next
  case (Inr p)
  obtain r w1 where run: "handler p w = (r, w1)" by (cases "handler p w")
  show ?thesis
  proof (cases r)
    case (Inl e)
    with Inr run show ?thesis
      by (simp add: toolCase_def parse_def bindIO_def returnIO_def)
  next
    case res: (Inr result)
    obtain ev x' where t: "trackMCPCall E name rawArgs startTime True None (meta p) w1 =
             (Inr (), w1\<lparr>effects := effects w1 @ [HttpPost ev], outside := x'\<rparr>)"
      and ev: "event_type ev = ''mcp.'' @ name" "event_tool ev = name" "event_success ev"
        "event_error ev = None" "duration_ms ev = fst (Date_now E (outside w1)) - startTime"
      using trackMCPCall_returns [of E name rawArgs startTime True None "meta p" w1] by auto
    from Inr run res have 1: "bindIO (parse E schema rawArgs) handler w = (Inr result, w1)"
      by (simp add: parse_def bindIO_def returnIO_def)
    from Inr run res t have 2: "toolCase E schema handler meta name rawArgs startTime w =
        (Inr result, w1\<lparr>effects := effects w1 @ [HttpPost ev], outside := x'\<rparr>)"
      by (simp add: toolCase_def parse_def bindIO_def returnIO_def)
    have "\<exists>result w1 ev x'. bindIO (parse E schema rawArgs) handler w = (Inr result, w1) \<and>
       toolCase E schema handler meta name rawArgs startTime w =
         (Inr result, w1\<lparr>effects := effects w1 @ [HttpPost ev], outside := x'\<rparr>) \<and>
       event_type ev = ''mcp.'' @ name \<and> event_tool ev = name \<and> event_success ev \<and>
       event_error ev = None \<and>
       duration_ms ev = fst (Date_now E (outside w1)) - startTime"
      by (rule exI [of _ result], rule exI [of _ w1], rule exI [of _ ev], rule exI [of _ x'],
          intro conjI, rule 1, rule 2, (rule ev)+)
    then show ?thesis by (rule disjI2)
  qed
qed

lemma runTool_tracked:
  "(\<exists>e w1. handlerPart E detected cwd homeDir name rawArgs w = (Inl e, w1) \<and>
       runTool E detected cwd homeDir name rawArgs startTime w = (Inl e, w1)) \<or>
   (\<exists>result w1 ev x'. handlerPart E detected cwd homeDir name rawArgs w = (Inr result, w1) \<and>
       runTool E detected cwd homeDir name rawArgs startTime w =
         (Inr result, w1\<lparr>effects := effects w1 @ [HttpPost ev], outside := x'\<rparr>) \<and>
       event_type ev = ''mcp.'' @ name \<and> event_tool ev = name \<and> event_success ev \<and>
       event_error ev = None \<and>
       duration_ms ev = fst (Date_now E (outside w1)) - startTime)"
proof -
  consider "name = ''search_skills''" | "name = ''get_skill_detail''" | "name = ''install_skill''"
    | "name = ''browse_catalog''" | "name = ''recommend_skills''"
    | "name \<notin> set TOOL_NAMES" by (auto simp: TOOL_NAMES_def)
  then show ?thesis
  proof cases
    case 1
    then have e: "runTool E detected cwd homeDir name rawArgs startTime =
        toolCase E SearchSkillsSchema (\<lambda>p. ask (searchSkills E p))
          (\<lambda>p. [(''query'', Some (search_args.query p))]) name rawArgs startTime"
      by (simp add: runTool_cases)
    from 1 have h: "handlerPart E detected cwd homeDir name rawArgs =
        bindIO (parse E SearchSkillsSchema rawArgs) (\<lambda>p. ask (searchSkills E p))"
      by (simp add: handlerPart_def)
    show ?thesis unfolding e h by (rule toolCase_tracked)
  next
    case 2
    then have e: "runTool E detected cwd homeDir name rawArgs startTime =
        toolCase E GetSkillDetailSchema (\<lambda>p. ask (getSkillDetail E p))
          (\<lambda>p. [(''skill_id'', Some (detail_args.skill_id p))]) name rawArgs startTime"
      by (simp add: runTool_cases)
    from 2 have h: "handlerPart E detected cwd homeDir name rawArgs =
        bindIO (parse E GetSkillDetailSchema rawArgs) (\<lambda>p. ask (getSkillDetail E p))"
      by (simp add: handlerPart_def)
    show ?thesis unfolding e h by (rule toolCase_tracked)
  next
    case 3
    then have e: "runTool E detected cwd homeDir name rawArgs startTime =
        toolCase E InstallSkillSchema (installSkill E detected cwd homeDir)
          (\<lambda>p. [(''skill_id'', Some (install_args.skill_id p))]) name rawArgs startTime"
      by (simp add: runTool_cases)
    from 3 have h: "handlerPart E detected cwd homeDir name rawArgs =
        bindIO (parse E InstallSkillSchema rawArgs) (installSkill E detected cwd homeDir)"
      by (simp add: handlerPart_def)
    show ?thesis unfolding e h by (rule toolCase_tracked)
  next
    case 4
    then have e: "runTool E detected cwd homeDir name rawArgs startTime =
        toolCase E BrowseCatalogSchema (\<lambda>p. ask (browseCatalog E p))
          (\<lambda>p. [(''category'', browse_args.category p), (''sort'', Some (browse_args.sort p))])
          name rawArgs startTime"
      by (simp add: runTool_cases)
    from 4 have h: "handlerPart E detected cwd homeDir name rawArgs =
        bindIO (parse E BrowseCatalogSchema rawArgs) (\<lambda>p. ask (browseCatalog E p))"
      by (simp add: handlerPart_def)
    show ?thesis unfolding e h by (rule toolCase_tracked)
  next
    case 5
    then have e: "runTool E detected cwd homeDir name rawArgs startTime =
        toolCase E RecommendSkillsSchema (\<lambda>p. ask (recommendSkills E p))
          (\<lambda>p. [(''context'', Some (take 100 (recommend_args.context p)))]) name rawArgs startTime"
      by (simp add: runTool_cases)
    from 5 have h: "handlerPart E detected cwd homeDir name rawArgs =
        bindIO (parse E RecommendSkillsSchema rawArgs) (\<lambda>p. ask (recommendSkills E p))"
      by (simp add: handlerPart_def)
    show ?thesis unfolding e h by (rule toolCase_tracked)
  next
    case 6
    then show ?thesis
      by (simp add: runTool_cases handlerPart_def TOOL_NAMES_def throwIO_def)
  qed
qed

lemma parse_handler_posts:
  assumes h: "\<And>p v r v'. handler p v = (r, v') \<Longrightarrow> posts (effects v') = posts (effects v)"
  shows "posts (effects (snd (bindIO (parse E schema rawArgs) handler w))) = posts (effects w)"
proof (cases "schema rawArgs")
  case (Inl issues)
  then show ?thesis by (simp add: parse_def bindIO_def throwIO_def)
next
  case (Inr p)
  obtain r w1 where run: "handler p w = (r, w1)" by (cases "handler p w")
  from h [OF run] Inr run show ?thesis
    by (simp add: parse_def bindIO_def returnIO_def)
qed

text \<open>The parse-and-handle part posts nothing.\<close>

lemma handlerPart_posts:
  "posts (effects (snd (handlerPart E detected cwd homeDir name rawArgs w))) = posts (effects w)"
proof -
  have a: "posts (effects v') = posts (effects v)" if "ask f v = (r, v')"
    for f :: "'a \<Rightarrow> (thrown + string) \<times> 'a" and v r v'
    using ask_effects [OF that] by simp
  consider "name = ''search_skills''" | "name = ''get_skill_detail''" | "name = ''install_skill''"
    | "name = ''browse_catalog''" | "name = ''recommend_skills''"
    | "name \<notin> set TOOL_NAMES" by (auto simp: TOOL_NAMES_def)
  then show ?thesis
  proof cases
    case 1
    then have h: "handlerPart E detected cwd homeDir name rawArgs =
        bindIO (parse E SearchSkillsSchema rawArgs) (\<lambda>p. ask (searchSkills E p))"
      by (simp add: handlerPart_def)
    show ?thesis unfolding h by (rule parse_handler_posts) (rule a)
  next
    case 2
    then have h: "handlerPart E detected cwd homeDir name rawArgs =
        bindIO (parse E GetSkillDetailSchema rawArgs) (\<lambda>p. ask (getSkillDetail E p))"
      by (simp add: handlerPart_def)
    show ?thesis unfolding h by (rule parse_handler_posts) (rule a)
  next
    case 3
    then have h: "handlerPart E detected cwd homeDir name rawArgs =
        bindIO (parse E InstallSkillSchema rawArgs) (installSkill E detected cwd homeDir)"
      by (simp add: handlerPart_def)
    show ?thesis unfolding h by (rule parse_handler_posts) (rule installSkill_posts)
  next
    case 4
    then have h: "handlerPart E detected cwd homeDir name rawArgs =
        bindIO (parse E BrowseCatalogSchema rawArgs) (\<lambda>p. ask (browseCatalog E p))"
      by (simp add: handlerPart_def)
    show ?thesis unfolding h by (rule parse_handler_posts) (rule a)
  next
    case 5
    then have h: "handlerPart E detected cwd homeDir name rawArgs =
        bindIO (parse E RecommendSkillsSchema rawArgs) (\<lambda>p. ask (recommendSkills E p))"
      by (simp add: handlerPart_def)
    show ?thesis unfolding h by (rule parse_handler_posts) (rule a)
  next
    case 6
    then show ?thesis
      by (simp add: handlerPart_def TOOL_NAMES_def throwIO_def)
  qed
qed

lemma handleCallTool_run:
  assumes "now E w = (Inr startTime, w0)"
  shows "handleCallTool E detected cwd homeDir name rawArgs w =
     (case runTool E detected cwd homeDir name rawArgs startTime w0 of
        (Inr result, w1) \<Rightarrow> (Inr \<lparr>result_text = result, isError = False\<rparr>, w1)
      | (Inl e, w1) \<Rightarrow>
          (case trackMCPCall E name rawArgs startTime False (Some (errorMessage e)) [] w1 of
             (Inr _, w2) \<Rightarrow> (Inr \<lparr>result_text = ''Error: '' @ errorMessage e, isError = True\<rparr>, w2)
           | (Inl e', w2) \<Rightarrow> (Inl e', w2)))"
  using assms
  by (simp add: handleCallTool_def bindIO_def tryCatch_def returnIO_def Let_def
        split: prod.splits sum.splits)

text \<open>
  The whole call: the clock is read, the parse-and-handle part runs, and one tracking call
  starts in the world that part left, with the success flag and message of its outcome.
\<close>

lemma handleCallTool_tracked:
  "\<exists>res ev x'.
     handleCallTool E detected cwd homeDir name rawArgs w =
       (Inr res, (snd (handlerPart E detected cwd homeDir name rawArgs (snd (now E w))))
          \<lparr>effects := effects (snd (handlerPart E detected cwd homeDir name rawArgs (snd (now E w))))
                       @ [HttpPost ev],
           outside := x'\<rparr>) \<and>
     event_type ev = ''mcp.'' @ name \<and> event_tool ev = name \<and>
     event_success ev = (\<not> isError res) \<and>
     duration_ms ev =
       fst (Date_now E (outside (snd (handlerPart E detected cwd homeDir name rawArgs (snd (now E w))))))
       - fst (Date_now E (outside w)) \<and>
     (\<forall>e. fst (handlerPart E detected cwd homeDir name rawArgs (snd (now E w))) = Inl e \<longrightarrow>
        res = \<lparr>result_text = ''Error: '' @ errorMessage e, isError = True\<rparr> \<and>
        event_error ev = Some (errorMessage e)) \<and>
     (\<forall>result. fst (handlerPart E detected cwd homeDir name rawArgs (snd (now E w))) = Inr result \<longrightarrow>
        res = \<lparr>result_text = result, isError = False\<rparr> \<and> event_error ev = None)"
proof -
  let ?start = "fst (Date_now E (outside w))"
  obtain x0 where n: "now E w = (Inr ?start, w\<lparr>outside := x0\<rparr>)"
    using now_effects [of E w] by (elim exE)
  let ?w0 = "w\<lparr>outside := x0\<rparr>"
  from n have w0: "snd (now E w) = ?w0" by simp
  note run = handleCallTool_run [OF n, of detected cwd homeDir name rawArgs]
  from runTool_tracked [of E detected cwd homeDir name rawArgs ?w0 ?start]
  show ?thesis
  proof (elim disjE exE conjE)
    fix e w1
    assume hp: "handlerPart E detected cwd homeDir name rawArgs ?w0 = (Inl e, w1)"
      and t: "runTool E detected cwd homeDir name rawArgs ?start ?w0 = (Inl e, w1)"
    obtain ev x' where tr: "trackMCPCall E name rawArgs ?start False (Some (errorMessage e)) [] w1 =
             (Inr (), w1\<lparr>effects := effects w1 @ [HttpPost ev], outside := x'\<rparr>)"
      and ev: "event_type ev = ''mcp.'' @ name" "event_tool ev = name" "event_success ev = False"
        "event_error ev = Some (errorMessage e)"
        "duration_ms ev = fst (Date_now E (outside w1)) - ?start"
      using trackMCPCall_returns [of E name rawArgs ?start False "Some (errorMessage e)" "[]" w1]
      by auto
    let ?res = "\<lparr>result_text = ''Error: '' @ errorMessage e, isError = True\<rparr>"
    from run t tr have 1: "handleCallTool E detected cwd homeDir name rawArgs w =
        (Inr ?res, w1\<lparr>effects := effects w1 @ [HttpPost ev], outside := x'\<rparr>)"
      by simp
    from 1 ev hp show ?thesis
      by (intro exI [of _ ?res] exI [of _ ev] exI [of _ x']) (simp add: w0)
  next
    fix result w1 ev x'
    assume hp: "handlerPart E detected cwd homeDir name rawArgs ?w0 = (Inr result, w1)"
      and t: "runTool E detected cwd homeDir name rawArgs ?start ?w0 =
          (Inr result, w1\<lparr>effects := effects w1 @ [HttpPost ev], outside := x'\<rparr>)"
      and ev: "event_type ev = ''mcp.'' @ name" "event_tool ev = name" "event_success ev"
        "event_error ev = None" "duration_ms ev = fst (Date_now E (outside w1)) - ?start"
    let ?res = "\<lparr>result_text = result, isError = False\<rparr>"
    from run t have 1: "handleCallTool E detected cwd homeDir name rawArgs w =
        (Inr ?res, w1\<lparr>effects := effects w1 @ [HttpPost ev], outside := x'\<rparr>)"
      by simp
    from 1 ev hp show ?thesis
      by (intro exI [of _ ?res] exI [of _ ev] exI [of _ x']) (simp add: w0)
  qed
qed

lemma runTool_unknown:
  "name \<notin> set TOOL_NAMES \<Longrightarrow>
   runTool E detected cwd homeDir name rawArgs startTime = throwIO (JsError (''Unknown tool: '' @ name))"
  by (simp add: runTool_cases TOOL_NAMES_def)

lemma toolCase_invalid:
  "schema rawArgs = Inl issues \<Longrightarrow>
   toolCase E schema handler meta name rawArgs startTime = throwIO (JsError (zod_message E issues))"
  by (simp add: toolCase_def parse_def bindIO_def throwIO_def)

lemma runTool_invalid:
  "schemaIssues name rawArgs = Some issues \<Longrightarrow>
   runTool E detected cwd homeDir name rawArgs startTime = throwIO (JsError (zod_message E issues))"
  by (auto simp: schemaIssues_def runTool_cases toolCase_invalid split: if_splits sum.splits)

lemma handleCallTool_throw:
  "(\<And>startTime. runTool E detected cwd homeDir name rawArgs startTime = throwIO (JsError message)) \<Longrightarrow>
   handleCallTool E detected cwd homeDir name rawArgs = rejectWith E name rawArgs message"
  by (rule ext)
     (simp add: handleCallTool_def rejectWith_def bindIO_def tryCatch_def throwIO_def Let_def
        split: prod.splits sum.splits)

lemma trackMCPCall_Inr:
  "\<exists>w'. trackMCPCall E name rawArgs startTime ok err meta w = (Inr (), w')"
  by (auto simp: trackMCPCall_def now_def ask_def perform_def tryCatch_def bindIO_def
        returnIO_def Let_def split: prod.splits sum.splits)

lemma rejectWith_result:
  "\<exists>w'. rejectWith E name rawArgs message w =
          (Inr \<lparr>result_text = ''Error: '' @ message, isError = True\<rparr>, w')"
proof -
  obtain x0 where n: "now E w = (Inr (fst (Date_now E (outside w))), w\<lparr>outside := x0\<rparr>)"
    using now_effects [of E w] by (elim exE)
  obtain w2 where "trackMCPCall E name rawArgs (fst (Date_now E (outside w))) False (Some message) []
      (w\<lparr>outside := x0\<rparr>) = (Inr (), w2)"
    using trackMCPCall_Inr
      [of E name rawArgs "fst (Date_now E (outside w))" False "Some message" "[]" "w\<lparr>outside := x0\<rparr>"]
    by (elim exE)
  with n show ?thesis
    by (simp add: rejectWith_def bindIO_def returnIO_def)
qed

lemma rejectWith_cong:
  "Date_now E' = Date_now E \<Longrightarrow> fetch E' = fetch E \<Longrightarrow>
   rejectWith E' name rawArgs message = rejectWith E name rawArgs message"
  by (simp add: rejectWith_def now_def trackMCPCall_def)

lemma installAgent_fetch:
  "installAgent (E\<lparr>fetch := f\<rparr>) cwd homeDir data agent = installAgent E cwd homeDir data agent"
  by (simp add: installAgent_def Let_def cong: option.case_cong if_cong)

lemma executeLoop_fetch:
  "executeLoop (E\<lparr>fetch := f\<rparr>) cwd homeDir data targets installed errors =
   executeLoop E cwd homeDir data targets installed errors"
  by (induction targets arbitrary: installed errors) (simp_all add: installAgent_fetch)

lemma installSkill_fetch:
  "installSkill (E\<lparr>fetch := f\<rparr>) detected cwd homeDir = installSkill E detected cwd homeDir"
  by (rule ext) (simp add: installSkill_def executeLoop_fetch Let_def cong: if_cong)

lemma now_fetch: "now (E\<lparr>fetch := f\<rparr>) = now E"
  by (simp add: now_def)

lemma toolCase_fetch:
  "(\<exists>e w1. toolCase (E\<lparr>fetch := f\<rparr>) schema handler meta name rawArgs startTime w = (Inl e, w1) \<and>
            toolCase E schema handler meta name rawArgs startTime w = (Inl e, w1)) \<or>
   (\<exists>r w1 w2. toolCase (E\<lparr>fetch := f\<rparr>) schema handler meta name rawArgs startTime w = (Inr r, w1) \<and>
            toolCase E schema handler meta name rawArgs startTime w = (Inr r, w2) \<and>
            effects w1 = effects w2)"
proof (cases "schema rawArgs")
  case (Inl issues)
  then show ?thesis
    by (simp add: toolCase_invalid throwIO_def)
next
  case (Inr p)
  obtain r w1 where run: "handler p w = (r, w1)" by (cases "handler p w")
  show ?thesis
  proof (cases r)
    case (Inl e)
    with Inr run show ?thesis
      by (simp add: toolCase_def parse_def bindIO_def returnIO_def)
  next
    case res: (Inr result)
    obtain wa where a: "trackMCPCall (E\<lparr>fetch := f\<rparr>) name rawArgs startTime True None (meta p) w1
        = (Inr (), wa)"
      using trackMCPCall_Inr [of "E\<lparr>fetch := f\<rparr>" name rawArgs startTime True None "meta p" w1]
      by (elim exE)
    obtain wb where b: "trackMCPCall E name rawArgs startTime True None (meta p) w1 = (Inr (), wb)"
      using trackMCPCall_Inr [of E name rawArgs startTime True None "meta p" w1]
      by (elim exE)
    from trackMCPCall_fetch [where E=E and f=f and name=name and rawArgs=rawArgs and startTime=startTime
        and ok=True and err=None and meta="meta p" and w=w1] a b
    have eq: "effects wa = effects wb" by simp
    from Inr run res a have 1: "toolCase (E\<lparr>fetch := f\<rparr>) schema handler meta name rawArgs startTime w
        = (Inr result, wa)"
      by (simp add: toolCase_def parse_def bindIO_def returnIO_def)
    from Inr run res b have 2: "toolCase E schema handler meta name rawArgs startTime w
        = (Inr result, wb)"
      by (simp add: toolCase_def parse_def bindIO_def returnIO_def)
    from 1 2 eq show ?thesis by simp
  qed
qed

lemma runTool_fetch_cases:
  "runTool (E\<lparr>fetch := f\<rparr>) detected cwd homeDir name rawArgs startTime =
     (if name = ''search_skills'' then
        toolCase (E\<lparr>fetch := f\<rparr>) SearchSkillsSchema (\<lambda>p. ask (searchSkills E p))
          (\<lambda>p. [(''query'', Some (search_args.query p))]) name rawArgs startTime
      else if name = ''get_skill_detail'' then
        toolCase (E\<lparr>fetch := f\<rparr>) GetSkillDetailSchema (\<lambda>p. ask (getSkillDetail E p))
          (\<lambda>p. [(''skill_id'', Some (detail_args.skill_id p))]) name rawArgs startTime
      else if name = ''install_skill'' then
        toolCase (E\<lparr>fetch := f\<rparr>) InstallSkillSchema (installSkill E detected cwd homeDir)
          (\<lambda>p. [(''skill_id'', Some (install_args.skill_id p))]) name rawArgs startTime
      else if name = ''browse_catalog'' then
        toolCase (E\<lparr>fetch := f\<rparr>) BrowseCatalogSchema (\<lambda>p. ask (browseCatalog E p))
          (\<lambda>p. [(''category'', browse_args.category p), (''sort'', Some (browse_args.sort p))])
          name rawArgs startTime
      else if name = ''recommend_skills'' then
        toolCase (E\<lparr>fetch := f\<rparr>) RecommendSkillsSchema (\<lambda>p. ask (recommendSkills E p))
          (\<lambda>p. [(''context'', Some (take 100 (recommend_args.context p)))]) name rawArgs startTime
      else throwIO (JsError (''Unknown tool: '' @ name)))"
  by (simp add: runTool_cases installSkill_fetch cong: if_cong)

lemma runTool_fetch:
  "(\<exists>e w1. runTool (E\<lparr>fetch := f\<rparr>) detected cwd homeDir name rawArgs startTime w = (Inl e, w1) \<and>
            runTool E detected cwd homeDir name rawArgs startTime w = (Inl e, w1)) \<or>
   (\<exists>r w1 w2. runTool (E\<lparr>fetch := f\<rparr>) detected cwd homeDir name rawArgs startTime w = (Inr r, w1) \<and>
            runTool E detected cwd homeDir name rawArgs startTime w = (Inr r, w2) \<and>
            effects w1 = effects w2)"
proof -
  consider "name = ''search_skills''" | "name = ''get_skill_detail''" | "name = ''install_skill''"
    | "name = ''browse_catalog''" | "name = ''recommend_skills''"
    | "name \<notin> set TOOL_NAMES" by (auto simp: TOOL_NAMES_def)
  then show ?thesis
  proof cases
    case 1
    then have e1: "runTool (E\<lparr>fetch := f\<rparr>) detected cwd homeDir name rawArgs startTime =
        toolCase (E\<lparr>fetch := f\<rparr>) SearchSkillsSchema (\<lambda>p. ask (searchSkills E p))
          (\<lambda>p. [(''query'', Some (search_args.query p))]) name rawArgs startTime"
      by (simp add: runTool_fetch_cases)
    from \<open>name = _\<close> have e2: "runTool E detected cwd homeDir name rawArgs startTime =
        toolCase E SearchSkillsSchema (\<lambda>p. ask (searchSkills E p))
          (\<lambda>p. [(''query'', Some (search_args.query p))]) name rawArgs startTime"
      by (simp add: runTool_cases)
    show ?thesis unfolding e1 e2 by (rule toolCase_fetch)
  next
    case 2
    then have e1: "runTool (E\<lparr>fetch := f\<rparr>) detected cwd homeDir name rawArgs startTime =
        toolCase (E\<lparr>fetch := f\<rparr>) GetSkillDetailSchema (\<lambda>p. ask (getSkillDetail E p))
          (\<lambda>p. [(''skill_id'', Some (detail_args.skill_id p))]) name rawArgs startTime"
      by (simp add: runTool_fetch_cases)
    from \<open>name = _\<close> have e2: "runTool E detected cwd homeDir name rawArgs startTime =
        toolCase E GetSkillDetailSchema (\<lambda>p. ask (getSkillDetail E p))
          (\<lambda>p. [(''skill_id'', Some (detail_args.skill_id p))]) name rawArgs startTime"
      by (simp add: runTool_cases)
    show ?thesis unfolding e1 e2 by (rule toolCase_fetch)
  next
    case 3
    then have e1: "runTool (E\<lparr>fetch := f\<rparr>) detected cwd homeDir name rawArgs startTime =
        toolCase (E\<lparr>fetch := f\<rparr>) InstallSkillSchema (installSkill E detected cwd homeDir)
          (\<lambda>p. [(''skill_id'', Some (install_args.skill_id p))]) name rawArgs startTime"
      by (simp add: runTool_fetch_cases)
    from \<open>name = _\<close> have e2: "runTool E detected cwd homeDir name rawArgs startTime =
        toolCase E InstallSkillSchema (installSkill E detected cwd homeDir)
          (\<lambda>p. [(''skill_id'', Some (install_args.skill_id p))]) name rawArgs startTime"
      by (simp add: runTool_cases)
    show ?thesis unfolding e1 e2 by (rule toolCase_fetch)
  next
    case 4
    then have e1: "runTool (E\<lparr>fetch := f\<rparr>) detected cwd homeDir name rawArgs startTime =
        toolCase (E\<lparr>fetch := f\<rparr>) BrowseCatalogSchema (\<lambda>p. ask (browseCatalog E p))
          (\<lambda>p. [(''category'', browse_args.category p), (''sort'', Some (browse_args.sort p))]) name rawArgs startTime"
      by (simp add: runTool_fetch_cases)
    from \<open>name = _\<close> have e2: "runTool E detected cwd homeDir name rawArgs startTime =
        toolCase E BrowseCatalogSchema (\<lambda>p. ask (browseCatalog E p))
          (\<lambda>p. [(''category'', browse_args.category p), (''sort'', Some (browse_args.sort p))]) name rawArgs startTime"
      by (simp add: runTool_cases)
    show ?thesis unfolding e1 e2 by (rule toolCase_fetch)
  next
    case 5
    then have e1: "runTool (E\<lparr>fetch := f\<rparr>) detected cwd homeDir name rawArgs startTime =
        toolCase (E\<lparr>fetch := f\<rparr>) RecommendSkillsSchema (\<lambda>p. ask (recommendSkills E p))
          (\<lambda>p. [(''context'', Some (take 100 (recommend_args.context p)))]) name rawArgs startTime"
      by (simp add: runTool_fetch_cases)
    from \<open>name = _\<close> have e2: "runTool E detected cwd homeDir name rawArgs startTime =
        toolCase E RecommendSkillsSchema (\<lambda>p. ask (recommendSkills E p))
          (\<lambda>p. [(''context'', Some (take 100 (recommend_args.context p)))]) name rawArgs startTime"
      by (simp add: runTool_cases)
    show ?thesis unfolding e1 e2 by (rule toolCase_fetch)
  next
    case 6
    then show ?thesis
      by (simp add: runTool_unknown throwIO_def)
  qed
qed

lemma handleCallTool_fetch:
  "fst (handleCallTool (E\<lparr>fetch := f\<rparr>) detected cwd homeDir name rawArgs w) =
     fst (handleCallTool E detected cwd homeDir name rawArgs w) \<and>
   effects (snd (handleCallTool (E\<lparr>fetch := f\<rparr>) detected cwd homeDir name rawArgs w)) =
     effects (snd (handleCallTool E detected cwd homeDir name rawArgs w))"
proof -
  let ?start = "fst (Date_now E (outside w))"
  obtain x0 where n: "now E w = (Inr ?start, w\<lparr>outside := x0\<rparr>)"
    using now_effects [of E w] by (elim exE)
  let ?w0 = "w\<lparr>outside := x0\<rparr>"
  from n have n': "now (E\<lparr>fetch := f\<rparr>) w = (Inr ?start, ?w0)" by (simp add: now_fetch)
  note run = handleCallTool_run [OF n, of detected cwd homeDir name rawArgs]
  note run' = handleCallTool_run [OF n', of detected cwd homeDir name rawArgs]
  from runTool_fetch [where E=E and f=f and detected=detected and cwd=cwd and homeDir=homeDir
      and name=name and rawArgs=rawArgs and startTime="?start" and w="?w0"]
  show ?thesis
  proof (elim disjE exE conjE)
    fix e w1
    assume a: "runTool (E\<lparr>fetch := f\<rparr>) detected cwd homeDir name rawArgs ?start ?w0 = (Inl e, w1)"
      and b: "runTool E detected cwd homeDir name rawArgs ?start ?w0 = (Inl e, w1)"
    obtain wa where ta: "trackMCPCall (E\<lparr>fetch := f\<rparr>) name rawArgs ?start False
        (Some (errorMessage e)) [] w1 = (Inr (), wa)"
      using trackMCPCall_Inr [of "E\<lparr>fetch := f\<rparr>" name rawArgs ?start False
          "Some (errorMessage e)" "[]" w1]
      by (elim exE)
    obtain wb where tb: "trackMCPCall E name rawArgs ?start False (Some (errorMessage e)) [] w1
        = (Inr (), wb)"
      using trackMCPCall_Inr [of E name rawArgs ?start False "Some (errorMessage e)" "[]" w1]
      by (elim exE)
    from trackMCPCall_fetch [where E=E and f=f and name=name and rawArgs=rawArgs and startTime="?start"
        and ok=False and err="Some (errorMessage e)" and meta="[]" and w=w1] ta tb
    have eq: "effects wa = effects wb" by simp
    from run b tb have 1: "handleCallTool E detected cwd homeDir name rawArgs w =
        (Inr \<lparr>result_text = ''Error: '' @ errorMessage e, isError = True\<rparr>, wb)" by simp
    from run' a ta have 2: "handleCallTool (E\<lparr>fetch := f\<rparr>) detected cwd homeDir name rawArgs w =
        (Inr \<lparr>result_text = ''Error: '' @ errorMessage e, isError = True\<rparr>, wa)" by simp
    from 1 2 eq show ?thesis by simp
  next
    fix r w1 w2
    assume a: "runTool (E\<lparr>fetch := f\<rparr>) detected cwd homeDir name rawArgs ?start ?w0 = (Inr r, w1)"
      and b: "runTool E detected cwd homeDir name rawArgs ?start ?w0 = (Inr r, w2)"
      and eq: "effects w1 = effects w2"
    from run b have 1: "handleCallTool E detected cwd homeDir name rawArgs w =
        (Inr \<lparr>result_text = r, isError = False\<rparr>, w2)" by simp
    from run' a have 2: "handleCallTool (E\<lparr>fetch := f\<rparr>) detected cwd homeDir name rawArgs w =
        (Inr \<lparr>result_text = r, isError = False\<rparr>, w1)" by simp
    from 1 2 eq show ?thesis by simp
  qed
qed

lemma handleCallTool_invalid:
  "schemaIssues name rawArgs = Some issues \<Longrightarrow>
   handleCallTool E detected cwd homeDir name rawArgs =
     rejectWith E name rawArgs (zod_message E issues)"
  by (rule handleCallTool_throw) (rule runTool_invalid)

lemma handleCallTool_unknown:
  "name \<notin> set TOOL_NAMES \<Longrightarrow>
   handleCallTool E detected cwd homeDir name rawArgs =
     rejectWith E name rawArgs (''Unknown tool: '' @ name)"
  by (rule handleCallTool_throw) (rule runTool_unknown)

text \<open>
  C5. The tool-call handler always returns a result and never throws, for every tool name,
  raw arguments, outside and world. A name with no case in the switch gives exactly the
  rejection with the message \<^verbatim>\<open>Unknown tool: name\<close>; arguments that fail the schema of
  the named tool give exactly the rejection with the schema error's message, and then
  the whole call is the same for any other handlers, client and file system (none of
  them runs). A rejection returns the error-flagged result \<^verbatim>\<open>Error: message\<close>.
\<close>

theorem handleCallTool_never_throws:
  "(\<exists>res w'. handleCallTool E detected cwd homeDir name rawArgs w = (Inr res, w')) \<and>
   (name \<notin> set TOOL_NAMES \<longrightarrow>
      handleCallTool E detected cwd homeDir name rawArgs w =
        rejectWith E name rawArgs (''Unknown tool: '' @ name) w) \<and>
   (\<forall>issues. schemaIssues name rawArgs = Some issues \<longrightarrow>
      handleCallTool E detected cwd homeDir name rawArgs w =
        rejectWith E name rawArgs (zod_message E issues) w \<and>
      (\<forall>E'. Date_now E' = Date_now E \<and> fetch E' = fetch E \<and> zod_message E' = zod_message E \<longrightarrow>
         handleCallTool E' detected cwd homeDir name rawArgs w =
           handleCallTool E detected cwd homeDir name rawArgs w)) \<and>
   (\<forall>message. \<exists>w'. rejectWith E name rawArgs message w =
      (Inr \<lparr>result_text = ''Error: '' @ message, isError = True\<rparr>, w'))"
proof (intro conjI allI impI)
  from handleCallTool_tracked [of E detected cwd homeDir name rawArgs w]
  show "\<exists>res w'. handleCallTool E detected cwd homeDir name rawArgs w = (Inr res, w')"
    by (elim exE conjE) (intro exI)
next
  assume "name \<notin> set TOOL_NAMES"
  then show "handleCallTool E detected cwd homeDir name rawArgs w =
        rejectWith E name rawArgs (''Unknown tool: '' @ name) w"
    by (simp add: handleCallTool_unknown)
next
  fix issues
  assume "schemaIssues name rawArgs = Some issues"
  then show "handleCallTool E detected cwd homeDir name rawArgs w =
        rejectWith E name rawArgs (zod_message E issues) w"
    by (simp add: handleCallTool_invalid)
next
  fix issues and E' :: "'a externals"
  assume i: "schemaIssues name rawArgs = Some issues"
    and same: "Date_now E' = Date_now E \<and> fetch E' = fetch E \<and> zod_message E' = zod_message E"
  from same have d: "Date_now E' = Date_now E" and f: "fetch E' = fetch E"
    and z: "zod_message E' = zod_message E" by simp_all
  have "rejectWith E' name rawArgs (zod_message E issues) =
      rejectWith E name rawArgs (zod_message E issues)"
    by (rule rejectWith_cong [OF d f])
  with z have "rejectWith E' name rawArgs (zod_message E' issues) =
      rejectWith E name rawArgs (zod_message E issues)"
    by (simp only:)
  then show "handleCallTool E' detected cwd homeDir name rawArgs w =
           handleCallTool E detected cwd homeDir name rawArgs w"
    by (simp only: handleCallTool_invalid [OF i])
next
  fix message
  show "\<exists>w'. rejectWith E name rawArgs message w =
      (Inr \<lparr>result_text = ''Error: '' @ message, isError = True\<rparr>, w')"
    by (rule rejectWith_result)
qed

text \<open>
  C6. Every tool call posts exactly one tracking event, whether the call succeeds or
  fails, and that post is the last thing the call does. The event carries the tool name,
  the success flag (the negation of the result's error flag: set exactly when parsing and
  handling returned a text), the message of the thrown error on failure and none on
  success, and as elapsed time the clock read when the tracking call starts, that is in
  the world which parsing and handling left, minus the clock read at the start of the
  call; after a schema failure it reports \<^verbatim>\<open>success = false\<close>. Whatever \<^verbatim>\<open>fetch\<close> does with
  the event, also when it throws or rejects, the handler returns the same result and has
  issued the same calls.
\<close>

theorem handleCallTool_tracks_once:
  "\<exists>res w' ev.
     handleCallTool E detected cwd homeDir name rawArgs w = (Inr res, w') \<and>
     posts (effects w') = posts (effects w) @ [ev] \<and>
     effects w' =
       effects (snd (handlerPart E detected cwd homeDir name rawArgs (snd (now E w)))) @ [HttpPost ev] \<and>
     event_type ev = ''mcp.'' @ name \<and> event_tool ev = name \<and>
     event_success ev = (\<not> isError res) \<and>
     (isError res \<longrightarrow> (\<exists>message. event_error ev = Some message \<and>
                                  result_text res = ''Error: '' @ message)) \<and>
     (\<not> isError res \<longrightarrow> event_error ev = None) \<and>
     duration_ms ev =
       fst (Date_now E (outside (snd (handlerPart E detected cwd homeDir name rawArgs (snd (now E w))))))
       - fst (Date_now E (outside w)) \<and>
     (\<forall>e. fst (handlerPart E detected cwd homeDir name rawArgs (snd (now E w))) = Inl e \<longrightarrow>
        res = \<lparr>result_text = ''Error: '' @ errorMessage e, isError = True\<rparr> \<and>
        event_error ev = Some (errorMessage e)) \<and>
     (\<forall>result. fst (handlerPart E detected cwd homeDir name rawArgs (snd (now E w))) = Inr result \<longrightarrow>
        res = \<lparr>result_text = result, isError = False\<rparr>) \<and>
     (schemaIssues name rawArgs \<noteq> None \<longrightarrow> isError res \<and> \<not> event_success ev) \<and>
     (\<forall>f. fst (handleCallTool (E\<lparr>fetch := f\<rparr>) detected cwd homeDir name rawArgs w) = Inr res \<and>
          effects (snd (handleCallTool (E\<lparr>fetch := f\<rparr>) detected cwd homeDir name rawArgs w)) =
            effects w')"
proof -
  define w1 where "w1 = snd (handlerPart E detected cwd homeDir name rawArgs (snd (now E w)))"
  define out where "out = fst (handlerPart E detected cwd homeDir name rawArgs (snd (now E w)))"
  from handleCallTool_tracked [of E detected cwd homeDir name rawArgs w]
  obtain res ev x' where
    run: "handleCallTool E detected cwd homeDir name rawArgs w =
       (Inr res, w1\<lparr>effects := effects w1 @ [HttpPost ev], outside := x'\<rparr>)"
    and ty: "event_type ev = ''mcp.'' @ name" and tool: "event_tool ev = name"
    and ok: "event_success ev = (\<not> isError res)"
    and dur: "duration_ms ev = fst (Date_now E (outside w1)) - fst (Date_now E (outside w))"
    and thrown: "\<forall>e. out = Inl e \<longrightarrow>
        res = \<lparr>result_text = ''Error: '' @ errorMessage e, isError = True\<rparr> \<and>
        event_error ev = Some (errorMessage e)"
    and returned: "\<forall>result. out = Inr result \<longrightarrow>
        res = \<lparr>result_text = result, isError = False\<rparr> \<and> event_error ev = None"
    unfolding w1_def out_def by (elim exE conjE)
  let ?w' = "w1\<lparr>effects := effects w1 @ [HttpPost ev], outside := x'\<rparr>"
  have eff: "effects ?w' = effects w1 @ [HttpPost ev]" by simp
  have "posts (effects w1) = posts (effects (snd (now E w)))"
    unfolding w1_def by (rule handlerPart_posts)
  also have "effects (snd (now E w)) = effects w"
    using now_effects [of E w] by (elim exE) simp
  finally have one: "posts (effects ?w') = posts (effects w) @ [ev]"
    by (simp add: posts_append posts_single)
  have err: "isError res \<longrightarrow> (\<exists>message. event_error ev = Some message \<and>
                                  result_text res = ''Error: '' @ message)"
    using thrown returned by (cases out) auto
  have noerr: "\<not> isError res \<longrightarrow> event_error ev = None"
    using thrown returned by (cases out) auto
  have returned': "\<forall>result. out = Inr result \<longrightarrow> res = \<lparr>result_text = result, isError = False\<rparr>"
    using returned by simp
  have invalid: "schemaIssues name rawArgs \<noteq> None \<longrightarrow> isError res \<and> \<not> event_success ev"
  proof
    assume "schemaIssues name rawArgs \<noteq> None"
    then obtain issues where i: "schemaIssues name rawArgs = Some issues"
      by (cases "schemaIssues name rawArgs") simp_all
    obtain w2 where "rejectWith E name rawArgs (zod_message E issues) w =
      (Inr \<lparr>result_text = ''Error: '' @ zod_message E issues, isError = True\<rparr>, w2)"
      using rejectWith_result [of E name rawArgs "zod_message E issues" w] by (elim exE)
    with run have "isError res" by (auto simp: handleCallTool_invalid [OF i])
    with ok show "isError res \<and> \<not> event_success ev" by simp
  qed
  have swallow: "\<forall>f. fst (handleCallTool (E\<lparr>fetch := f\<rparr>) detected cwd homeDir name rawArgs w) = Inr res \<and>
          effects (snd (handleCallTool (E\<lparr>fetch := f\<rparr>) detected cwd homeDir name rawArgs w)) =
            effects ?w'"
  proof
    fix f
    from handleCallTool_fetch [where E=E and f=f and detected=detected and cwd=cwd
        and homeDir=homeDir and name=name and rawArgs=rawArgs and w=w] run
    show "fst (handleCallTool (E\<lparr>fetch := f\<rparr>) detected cwd homeDir name rawArgs w) = Inr res \<and>
          effects (snd (handleCallTool (E\<lparr>fetch := f\<rparr>) detected cwd homeDir name rawArgs w)) =
            effects ?w'"
      by simp
  qed
  show ?thesis
    unfolding w1_def [symmetric] out_def [symmetric]
    by (rule exI [of _ res], rule exI [of _ ?w'], rule exI [of _ ev],
        intro conjI, rule run, rule one, rule eff, rule ty, rule tool, rule ok, rule err, rule noerr,
        rule dur, rule thrown, rule returned', rule invalid, rule swallow)
qed

lemma sample_issues:
  "schemaIssues ''install_skill'' (Some (JObj [])) = Some [([Key ''skill_id''], invalid_type)]"
  by (simp add: schemaIssues_def InstallSkillSchema_def field_def zAp_def under_def zString_def
        zOptional_def zDefault_def)

theorem handleCallTool_never_throws_witness:
  "(\<exists>w'. handleCallTool (sampleOutside ''pdf'' []) ''claude'' ''/srv'' ''/home/u'' ''nope'' None world0 =
      (Inr \<lparr>result_text = ''Error: Unknown tool: nope'', isError = True\<rparr>, w')) \<and>
   (\<exists>w'. handleCallTool (sampleOutside ''pdf'' []) ''claude'' ''/srv'' ''/home/u'' ''install_skill''
        (Some (JObj [])) world0 =
      (Inr \<lparr>result_text = ''Error: invalid arguments'', isError = True\<rparr>, w'))"
proof -
  let ?E = "sampleOutside ''pdf'' []"
  note t1 = handleCallTool_never_throws [of ?E "''claude''" "''/srv''" "''/home/u''" "''nope''" None world0]
  note t2 = handleCallTool_never_throws [of ?E "''claude''" "''/srv''" "''/home/u''"
      "''install_skill''" "Some (JObj [])" world0]
  have n: "''nope'' \<notin> set TOOL_NAMES" by (simp add: TOOL_NAMES_def)
  note e1 = t1 [THEN conjunct2, THEN conjunct1, rule_format, OF n]
  from t1 [THEN conjunct2, THEN conjunct2, THEN conjunct2, rule_format, of "''Unknown tool: '' @ ''nope''"]
  obtain w1 where r1: "rejectWith ?E ''nope'' None (''Unknown tool: '' @ ''nope'') world0 =
      (Inr \<lparr>result_text = ''Error: '' @ ''Unknown tool: '' @ ''nope'', isError = True\<rparr>, w1)"
    by (elim exE)
  from e1 r1 have a: "handleCallTool ?E ''claude'' ''/srv'' ''/home/u'' ''nope'' None world0 =
      (Inr \<lparr>result_text = ''Error: Unknown tool: nope'', isError = True\<rparr>, w1)"
    by simp
  note e2 = t2 [THEN conjunct2, THEN conjunct2, THEN conjunct1, rule_format, OF sample_issues,
      THEN conjunct1]
  have z: "zod_message ?E [([Key ''skill_id''], invalid_type)] = ''invalid arguments''"
    by (simp add: sampleOutside_def)
  from t2 [THEN conjunct2, THEN conjunct2, THEN conjunct2, rule_format, of "''invalid arguments''"]
  obtain w2 where r2: "rejectWith ?E ''install_skill'' (Some (JObj [])) ''invalid arguments'' world0 =
      (Inr \<lparr>result_text = ''Error: '' @ ''invalid arguments'', isError = True\<rparr>, w2)"
    by (elim exE)
  from e2 z r2 have b: "handleCallTool ?E ''claude'' ''/srv'' ''/home/u'' ''install_skill''
        (Some (JObj [])) world0 =
      (Inr \<lparr>result_text = ''Error: invalid arguments'', isError = True\<rparr>, w2)"
    by simp
  show ?thesis
    by (intro conjI, rule exI [of _ w1], rule a, rule exI [of _ w2], rule b)
qed

lemma sample_handlerPart:
  "handlerPart (sampleOutside ''pdf'' []) ''claude'' ''/srv'' ''/home/u'' ''install_skill''
      (Some (JObj [])) (snd (now (sampleOutside ''pdf'' []) world0)) =
   (Inl (JsError ''invalid arguments''), \<lparr>effects = [], outside = 1007\<rparr>)"
  by (simp add: handlerPart_def parse_def InstallSkillSchema_def field_def zAp_def under_def
        zString_def zOptional_def zDefault_def bindIO_def throwIO_def now_def ask_def
        sampleOutside_def world0_def)

theorem handleCallTool_tracks_once_witness:
  "\<exists>res w' ev.
     handleCallTool (sampleOutside ''pdf'' []) ''claude'' ''/srv'' ''/home/u'' ''install_skill''
        (Some (JObj [])) world0 = (Inr res, w') \<and>
     posts (effects w') = [ev] \<and> effects w' = [HttpPost ev] \<and>
     event_tool ev = ''install_skill'' \<and>
     isError res \<and> \<not> event_success ev \<and>
     (\<exists>message. event_error ev = Some message \<and> result_text res = ''Error: '' @ message) \<and>
     res = \<lparr>result_text = ''Error: invalid arguments'', isError = True\<rparr> \<and>
     event_error ev = Some ''invalid arguments'' \<and>
     duration_ms ev = 7"
proof -
  let ?E = "sampleOutside ''pdf'' []"
  from handleCallTool_tracks_once [of ?E "''claude''" "''/srv''" "''/home/u''"
      "''install_skill''" "Some (JObj [])" world0]
  show ?thesis
  proof (elim exE conjE)
    fix res w' ev
    assume run: "handleCallTool ?E ''claude'' ''/srv'' ''/home/u'' ''install_skill''
        (Some (JObj [])) world0 = (Inr res, w')"
    assume one: "posts (effects w') = posts (effects world0) @ [ev]"
    assume eff: "effects w' = effects (snd (handlerPart ?E ''claude'' ''/srv'' ''/home/u''
        ''install_skill'' (Some (JObj [])) (snd (now ?E world0)))) @ [HttpPost ev]"
    assume tool: "event_tool ev = ''install_skill''"
    assume err: "isError res \<longrightarrow> (\<exists>message. event_error ev = Some message \<and>
                                  result_text res = ''Error: '' @ message)"
    assume dur: "duration_ms ev = fst (Date_now ?E (outside (snd (handlerPart ?E ''claude'' ''/srv''
        ''/home/u'' ''install_skill'' (Some (JObj [])) (snd (now ?E world0)))))) -
        fst (Date_now ?E (outside world0))"
    assume thrown: "\<forall>e. fst (handlerPart ?E ''claude'' ''/srv'' ''/home/u'' ''install_skill''
        (Some (JObj [])) (snd (now ?E world0))) = Inl e \<longrightarrow>
        res = \<lparr>result_text = ''Error: '' @ errorMessage e, isError = True\<rparr> \<and>
        event_error ev = Some (errorMessage e)"
    assume inv: "schemaIssues ''install_skill'' (Some (JObj [])) \<noteq> None \<longrightarrow>
        isError res \<and> \<not> event_success ev"
    have "schemaIssues ''install_skill'' (Some (JObj [])) \<noteq> None"
      by (simp only: sample_issues) simp
    with inv have bad: "isError res \<and> \<not> event_success ev" by (rule mp)
    then have isErr: "isError res" and fail: "\<not> event_success ev" by simp_all
    from err isErr have msg: "\<exists>message. event_error ev = Some message \<and>
        result_text res = ''Error: '' @ message" by (rule mp)
    from one have one': "posts (effects w') = [ev]"
      by (simp add: world0_def posts_def)
    from eff have eff': "effects w' = [HttpPost ev]"
      by (simp add: sample_handlerPart)
    from thrown [rule_format, of "JsError ''invalid arguments''"]
    have res: "res = \<lparr>result_text = ''Error: invalid arguments'', isError = True\<rparr>"
      and msg': "event_error ev = Some ''invalid arguments''"
      by (simp_all add: sample_handlerPart)
    from dur have dur': "duration_ms ev = 7"
      by (simp add: sample_handlerPart) (simp add: sampleOutside_def world0_def)
    show ?thesis
      by (rule exI [of _ res], rule exI [of _ w'], rule exI [of _ ev], intro conjI,
          rule run, rule one', rule eff', rule tool, rule isErr, rule fail, rule msg,
          rule res, rule msg', rule dur')
  qed
qed

end
